theory Spec2Isabelle
  imports Complex_Main "HOL-Library.Extended_Nat" "HOL-Library.Multiset" "HOL-Library.Log_Nat"
begin

section \<open>Numbers\<close>

text \<open>
  A JavaScript number is a double.  The arithmetic of the source is on integers that a
  double holds exactly, and is exact there, except for the subtraction and the division
  of \<open>diasVencido\<close>, whose results are rounded.  \<open>redondear\<close> is the rounding of an exact
  result to the nearest double, ties to the even significand of 53 bits, for results
  away from overflow and underflow (those of \<open>diasVencido\<close> lie between \<open>2 powi - 27\<close>
  and \<open>2 ^ 54\<close>).
\<close>

text \<open>The binary exponent of a positive rational: the \<open>e\<close> with \<open>2 powi e \<le> x < 2 powi (e + 1)\<close>.\<close>

definition exponente :: "rat \<Rightarrow> int" where
  "exponente x =
     (case quotient_of x of (a, b) \<Rightarrow>
        let e = bitlen a - bitlen b in if 2 powi e \<le> x then e else e - 1)"

text \<open>The nearest integer, a tie going to the even one.\<close>

definition redondeoPar :: "rat \<Rightarrow> int" where
  "redondeoPar m =
     (let f = \<lfloor>m\<rfloor>; r = m - of_int f
      in if r < 1 / 2 then f else if r > 1 / 2 then f + 1 else if even f then f else f + 1)"

definition redondear :: "rat \<Rightarrow> rat" where
  "redondear q =
     (if q = 0 then 0
      else let x = \<bar>q\<bar>; u = 2 powi (exponente x - 52)
           in sgn q * of_int (redondeoPar (x / u)) * u)"

definition Math_ceil :: "rat \<Rightarrow> int" where
  "Math_ceil x = \<lceil>x\<rceil>"

section \<open>Dates\<close>

text \<open>
  A valid JavaScript \<open>Date\<close> is its time value: a whole number of milliseconds since the
  epoch, of magnitude at most \<open>8.64e15\<close>.  \<open>TimeClip\<close> makes any other result an invalid
  \<open>Date\<close>, which is \<open>None\<close> in the model.  The source reads the clock with \<open>new Date()\<close>,
  which is always valid; every operation of the model takes that reading as the argument
  \<open>hoy\<close>, and the readings made within one call are the same instant.

  The calendar fields follow the day-number algorithms of the ECMAScript standard.
  \<open>getMonth\<close>, \<open>getDate\<close>, \<open>getFullYear\<close>, \<open>setDate\<close> and \<open>setFullYear\<close> work in local
  time: the time zone of the process is the function \<open>LocalTZA(t, isUTC)\<close> of the
  standard, the offset of local time from UTC in milliseconds, and is the parameter \<open>z\<close>
  of everything that reads or sets a calendar field.
\<close>

type_synonym Date = int

type_synonym zona = "int \<Rightarrow> bool \<Rightarrow> int"

definition msPerDay :: int where
  "msPerDay = 1000 * 60 * 60 * 24"

definition Day :: "int \<Rightarrow> int" where
  "Day t = t div msPerDay"

definition TimeWithinDay :: "int \<Rightarrow> int" where
  "TimeWithinDay t = t mod msPerDay"

definition DayFromYear :: "int \<Rightarrow> int" where
  "DayFromYear y =
     365 * (y - 1970) + (y - 1969) div 4 - (y - 1901) div 100 + (y - 1601) div 400"

definition esBisiesto :: "int \<Rightarrow> bool" where
  "esBisiesto y = (y mod 4 = 0 \<and> (y mod 100 \<noteq> 0 \<or> y mod 400 = 0))"

text \<open>The largest year whose first day is not after the day of \<open>t\<close>: an estimate from the
  mean length of a year, corrected by at most one.\<close>

definition YearFromTime :: "int \<Rightarrow> int" where
  "YearFromTime t =
     (let d = Day t; y = 1970 + (d * 400) div 146097
      in if DayFromYear (y + 1) \<le> d then y + 1
         else if d < DayFromYear y then y - 1
         else y)"

definition DayWithinYear :: "int \<Rightarrow> int" where
  "DayWithinYear t = Day t - DayFromYear (YearFromTime t)"

definition monthOfDay :: "bool \<Rightarrow> int \<Rightarrow> int" where
  "monthOfDay bisiesto d =
     (let l = (if bisiesto then 1 else 0)
      in if d < 31 then 0
         else if d < 59 + l then 1
         else if d < 90 + l then 2
         else if d < 120 + l then 3
         else if d < 151 + l then 4
         else if d < 181 + l then 5
         else if d < 212 + l then 6
         else if d < 243 + l then 7
         else if d < 273 + l then 8
         else if d < 304 + l then 9
         else if d < 334 + l then 10
         else 11)"

definition daysBeforeMonth :: "bool \<Rightarrow> int \<Rightarrow> int" where
  "daysBeforeMonth bisiesto m =
     (let l = (if bisiesto then 1 else 0)
      in if m = 0 then 0
         else if m = 1 then 31
         else if m = 2 then 59 + l
         else if m = 3 then 90 + l
         else if m = 4 then 120 + l
         else if m = 5 then 151 + l
         else if m = 6 then 181 + l
         else if m = 7 then 212 + l
         else if m = 8 then 243 + l
         else if m = 9 then 273 + l
         else if m = 10 then 304 + l
         else 334 + l)"

definition MonthFromTime :: "int \<Rightarrow> int" where
  "MonthFromTime t = monthOfDay (esBisiesto (YearFromTime t)) (DayWithinYear t)"

definition DateFromTime :: "int \<Rightarrow> int" where
  "DateFromTime t =
     DayWithinYear t - daysBeforeMonth (esBisiesto (YearFromTime t)) (MonthFromTime t) + 1"

text \<open>\<open>MakeDay\<close> for a month index in \<open>0..11\<close> (the only ones the setters below pass) and
  any day of the month, which may run over into the following months.\<close>

definition MakeDay :: "int \<Rightarrow> int \<Rightarrow> int \<Rightarrow> int" where
  "MakeDay y m dt = DayFromYear y + daysBeforeMonth (esBisiesto y) m + dt - 1"

definition MakeDate :: "int \<Rightarrow> int \<Rightarrow> int" where
  "MakeDate day time = day * msPerDay + time"

definition TimeClip :: "int \<Rightarrow> Date option" where
  "TimeClip t = (if \<bar>t\<bar> > 8640000000000000 then None else Some t)"

definition LocalTime :: "zona \<Rightarrow> int \<Rightarrow> int" where
  "LocalTime z t = t + z t True"

definition UTC :: "zona \<Rightarrow> int \<Rightarrow> int" where
  "UTC z t = t - z t False"

definition getFullYear :: "zona \<Rightarrow> Date \<Rightarrow> int" where
  "getFullYear z t = YearFromTime (LocalTime z t)"

definition getMonth :: "zona \<Rightarrow> Date \<Rightarrow> int" where
  "getMonth z t = MonthFromTime (LocalTime z t)"

definition getDate :: "zona \<Rightarrow> Date \<Rightarrow> int" where
  "getDate z t = DateFromTime (LocalTime z t)"

definition getTime :: "Date \<Rightarrow> int" where
  "getTime t = t"

definition setDate :: "zona \<Rightarrow> Date \<Rightarrow> int \<Rightarrow> Date option" where
  "setDate z t dt =
     (let tl = LocalTime z t;
          newDate = MakeDate (MakeDay (YearFromTime tl) (MonthFromTime tl) dt) (TimeWithinDay tl)
      in TimeClip (UTC z newDate))"

definition setFullYear :: "zona \<Rightarrow> Date \<Rightarrow> int \<Rightarrow> Date option" where
  "setFullYear z t y =
     (let tl = LocalTime z t;
          newDate = MakeDate (MakeDay y (MonthFromTime tl) (DateFromTime tl)) (TimeWithinDay tl)
      in TimeClip (UTC z newDate))"

text \<open>Two zones: UTC itself, and one that moves its clocks forward an hour, from five
  hours behind UTC to four, on 9 March 2025 at 07:00 UTC (02:00 local time).\<close>

definition zonaUTC :: zona where
  "zonaUTC t isUTC = 0"

definition zonaConCambio :: zona where
  "zonaConCambio t isUTC =
     (if isUTC then (if t < 1741503600000 then - 18000000 else - 14400000)
      else (if t < 1741489200000 then - 18000000 else - 14400000))"

section \<open>Books and loans\<close>

text \<open>
  Objects are compared by identity in the source (\<open>p.libro === libro\<close>,
  \<open>prestamos.indexOf(prestamo)\<close>).  Every object of the model carries the reference it
  was allocated at, and identity is equality of references.
\<close>

record Libro =
  ref_libro :: nat
  titulo :: string
  autor :: string
  isbn :: string

datatype TipoPrestamo = REGULAR | CORTO | REFERENCIA | DIGITAL

datatype clase_prestamo =
  PrestamoRegular | PrestamoCorto | PrestamoReferencia | PrestamoDigital

record Prestamo =
  ref_prestamo :: nat
  clase :: clase_prestamo
  libro :: Libro
  socioId :: int
  fechaPrestamo :: Date
  fechaVencimiento :: "Date option"

definition DURACION_DIAS :: "clase_prestamo \<Rightarrow> int" where
  "DURACION_DIAS c = (case c of PrestamoRegular \<Rightarrow> 14 | PrestamoCorto \<Rightarrow> 7 | _ \<Rightarrow> 0)"

definition MULTA_POR_DIA :: "clase_prestamo \<Rightarrow> int" where
  "MULTA_POR_DIA c = (case c of PrestamoRegular \<Rightarrow> 50 | PrestamoCorto \<Rightarrow> 100 | _ \<Rightarrow> 0)"

definition calcularVencimiento :: "zona \<Rightarrow> clase_prestamo \<Rightarrow> Date \<Rightarrow> Date option" where
  "calcularVencimiento z c fecha =
     (case c of
        PrestamoRegular \<Rightarrow> setDate z fecha (getDate z fecha + DURACION_DIAS PrestamoRegular)
      | PrestamoCorto \<Rightarrow> setDate z fecha (getDate z fecha + DURACION_DIAS PrestamoCorto)
      | PrestamoReferencia \<Rightarrow> Some fecha
      | PrestamoDigital \<Rightarrow> setFullYear z fecha (getFullYear z fecha + 100))"

text \<open>The constructor of \<open>Prestamo\<close>: the loan date is the clock reading, the due date
  is computed from it once.\<close>

definition nuevoPrestamo ::
  "zona \<Rightarrow> clase_prestamo \<Rightarrow> nat \<Rightarrow> Libro \<Rightarrow> int \<Rightarrow> Date \<Rightarrow> Prestamo" where
  "nuevoPrestamo z c r l sid hoy =
     \<lparr>ref_prestamo = r, clase = c, libro = l, socioId = sid,
      fechaPrestamo = hoy, fechaVencimiento = calcularVencimiento z c hoy\<rparr>"

definition PrestamoFactory_crearPrestamo ::
  "zona \<Rightarrow> TipoPrestamo \<Rightarrow> nat \<Rightarrow> Libro \<Rightarrow> int \<Rightarrow> Date \<Rightarrow> Prestamo" where
  "PrestamoFactory_crearPrestamo z tipo r l sid hoy =
     (case tipo of
        REGULAR \<Rightarrow> nuevoPrestamo z PrestamoRegular r l sid hoy
      | CORTO \<Rightarrow> nuevoPrestamo z PrestamoCorto r l sid hoy
      | REFERENCIA \<Rightarrow> nuevoPrestamo z PrestamoReferencia r l sid hoy
      | DIGITAL \<Rightarrow> nuevoPrestamo z PrestamoDigital r l sid hoy)"

text \<open>\<open>new Date() > this.fechaVencimiento\<close> compares the two time values; no date is
  after an invalid one.\<close>

definition estaVencido :: "Prestamo \<Rightarrow> Date \<Rightarrow> bool" where
  "estaVencido p hoy = (case fechaVencimiento p of None \<Rightarrow> False | Some v \<Rightarrow> hoy > v)"

text \<open>The two time values are integers that doubles hold exactly; their difference and
  its quotient by the milliseconds of a day are rounded to doubles.  The subtraction is
  reached only for a due date that is valid.\<close>

definition diasVencido :: "Prestamo \<Rightarrow> Date \<Rightarrow> int" where
  "diasVencido p hoy =
     (if \<not> estaVencido p hoy then 0
      else case fechaVencimiento p of
             None \<Rightarrow> 0
           | Some v \<Rightarrow>
               let diferencia = redondear (of_int (getTime hoy) - of_int (getTime v))
               in Math_ceil (redondear (diferencia / (1000 * 60 * 60 * 24))))"

definition calcularMulta :: "Prestamo \<Rightarrow> Date \<Rightarrow> int" where
  "calcularMulta p hoy =
     (case clase p of
        PrestamoRegular \<Rightarrow> diasVencido p hoy * MULTA_POR_DIA PrestamoRegular
      | PrestamoCorto \<Rightarrow> diasVencido p hoy * MULTA_POR_DIA PrestamoCorto
      | PrestamoReferencia \<Rightarrow> 0
      | PrestamoDigital \<Rightarrow> 0)"

definition PrestamoReferencia_puedeRetirar :: "Prestamo \<Rightarrow> bool" where
  "PrestamoReferencia_puedeRetirar p = False"

section \<open>Members\<close>

datatype TipoSocio = SOCIO_REGULAR | VIP | EMPLEADO | VISITANTE

datatype clase_socio = SocioRegular | SocioVIP | Empleado | Visitante

record Socio =
  id_socio :: int
  nombre :: string
  apellido :: string
  claseSocio :: clase_socio
  prestamos :: "Prestamo list"

definition nuevoSocio :: "clase_socio \<Rightarrow> int \<Rightarrow> string \<Rightarrow> string \<Rightarrow> Socio" where
  "nuevoSocio c i n a =
     \<lparr>id_socio = i, nombre = n, apellido = a, claseSocio = c, prestamos = []\<rparr>"

definition SocioFactory_crearSocio :: "TipoSocio \<Rightarrow> int \<Rightarrow> string \<Rightarrow> string \<Rightarrow> Socio" where
  "SocioFactory_crearSocio tipo i n a =
     (case tipo of
        SOCIO_REGULAR \<Rightarrow> nuevoSocio SocioRegular i n a
      | VIP \<Rightarrow> nuevoSocio SocioVIP i n a
      | EMPLEADO \<Rightarrow> nuevoSocio Empleado i n a
      | VISITANTE \<Rightarrow> nuevoSocio Visitante i n a)"

definition getDuracionPrestamo :: "Socio \<Rightarrow> int" where
  "getDuracionPrestamo s =
     (case claseSocio s of SocioRegular \<Rightarrow> 14 | SocioVIP \<Rightarrow> 21 | Empleado \<Rightarrow> 30 | Visitante \<Rightarrow> 0)"

text \<open>\<open>Infinity\<close> for the employee is the top element of the extended naturals.\<close>

definition getMaximoLibros :: "Socio \<Rightarrow> enat" where
  "getMaximoLibros s =
     (case claseSocio s of SocioRegular \<Rightarrow> 3 | SocioVIP \<Rightarrow> 5 | Empleado \<Rightarrow> \<infinity> | Visitante \<Rightarrow> 0)"

definition agregarPrestamo :: "Prestamo \<Rightarrow> Socio \<Rightarrow> Socio" where
  "agregarPrestamo p s = s\<lparr>prestamos := prestamos s @ [p]\<rparr>"

text \<open>\<open>Array.indexOf\<close> on loan objects: the first position holding the same object,
  \<open>-1\<close> when there is none.\<close>

fun indexOf :: "Prestamo list \<Rightarrow> Prestamo \<Rightarrow> int" where
  "indexOf [] p = - 1"
| "indexOf (q # qs) p =
     (if ref_prestamo q = ref_prestamo p then 0
      else let i = indexOf qs p in if i > - 1 then i + 1 else - 1)"

text \<open>\<open>splice(i, 1)\<close> for an index inside the array.\<close>

definition splice1 :: "nat \<Rightarrow> 'a list \<Rightarrow> 'a list" where
  "splice1 i xs = take i xs @ drop (Suc i) xs"

definition quitarPrestamo :: "Prestamo \<Rightarrow> Prestamo list \<Rightarrow> Prestamo list" where
  "quitarPrestamo p ps =
     (let indice = indexOf ps p in if indice > - 1 then splice1 (nat indice) ps else ps)"

definition removerPrestamo :: "Prestamo \<Rightarrow> Socio \<Rightarrow> Socio" where
  "removerPrestamo p s = s\<lparr>prestamos := quitarPrestamo p (prestamos s)\<rparr>"

definition tienePrestadoLibro :: "Socio \<Rightarrow> Libro \<Rightarrow> Prestamo option" where
  "tienePrestadoLibro s l = find (\<lambda>p. ref_libro (libro p) = ref_libro l) (prestamos s)"

definition librosEnPrestamo :: "Socio \<Rightarrow> nat" where
  "librosEnPrestamo s = length (prestamos s)"

definition Socio_puedeRetirar :: "Socio \<Rightarrow> Libro \<Rightarrow> bool" where
  "Socio_puedeRetirar s l =
     (case claseSocio s of
        Visitante \<Rightarrow> False
      | _ \<Rightarrow> enat (length (prestamos s)) < getMaximoLibros s)"

definition tieneLibrosVencidos :: "Socio \<Rightarrow> Date \<Rightarrow> bool" where
  "tieneLibrosVencidos s hoy = list_ex (\<lambda>p. estaVencido p hoy) (prestamos s)"

definition getLibrosVencidos :: "Socio \<Rightarrow> Date \<Rightarrow> Prestamo list" where
  "getLibrosVencidos s hoy = filter (\<lambda>p. estaVencido p hoy) (prestamos s)"

definition getMultaTotal :: "Socio \<Rightarrow> Date \<Rightarrow> int" where
  "getMultaTotal s hoy =
     (case claseSocio s of
        SocioVIP \<Rightarrow> 0
      | _ \<Rightarrow> foldl (\<lambda>total p. total + calcularMulta p hoy) 0 (prestamos s))"

section \<open>Lending policies\<close>

datatype TipoPolitica = ESTRICTA | FLEXIBLE | ESTUDIANTE | DOCENTE

datatype IPoliticaPrestamo =
  PoliticaEstricta | PoliticaFlexible | PoliticaEstudiante | PoliticaDocente

definition PoliticaFactory_crearPolitica :: "TipoPolitica \<Rightarrow> IPoliticaPrestamo" where
  "PoliticaFactory_crearPolitica tipo =
     (case tipo of
        ESTRICTA \<Rightarrow> PoliticaEstricta
      | FLEXIBLE \<Rightarrow> PoliticaFlexible
      | ESTUDIANTE \<Rightarrow> PoliticaEstudiante
      | DOCENTE \<Rightarrow> PoliticaDocente)"

definition MESES_EXAMENES :: "int list" where
  "MESES_EXAMENES = [5, 6, 11, 12]"

definition DURACION_EXTENDIDA :: int where
  "DURACION_EXTENDIDA = 60"

definition MAX_RENOVACIONES :: int where
  "MAX_RENOVACIONES = 5"

definition contarRenovaciones :: "Prestamo \<Rightarrow> int" where
  "contarRenovaciones p = 0"

definition Politica_puedeRetirar :: "IPoliticaPrestamo \<Rightarrow> Socio \<Rightarrow> Libro \<Rightarrow> Date \<Rightarrow> bool" where
  "Politica_puedeRetirar pol s l hoy =
     (case pol of
        PoliticaEstricta \<Rightarrow> \<not> tieneLibrosVencidos s hoy
      | PoliticaFlexible \<Rightarrow> True
      | PoliticaEstudiante \<Rightarrow> True
      | PoliticaDocente \<Rightarrow> True)"

definition calcularDuracion ::
  "zona \<Rightarrow> IPoliticaPrestamo \<Rightarrow> Socio \<Rightarrow> int \<Rightarrow> Date \<Rightarrow> int" where
  "calcularDuracion z pol s duracionBase hoy =
     (case pol of
        PoliticaEstricta \<Rightarrow> duracionBase
      | PoliticaFlexible \<Rightarrow>
          if tieneLibrosVencidos s hoy then duracionBase div 2 else duracionBase
      | PoliticaEstudiante \<Rightarrow>
          (let mesActual = getMonth z hoy
           in if mesActual \<in> set MESES_EXAMENES then duracionBase * 2 else duracionBase)
      | PoliticaDocente \<Rightarrow> DURACION_EXTENDIDA)"

definition permiteRenovacion ::
  "zona \<Rightarrow> IPoliticaPrestamo \<Rightarrow> Socio \<Rightarrow> Prestamo \<Rightarrow> Date \<Rightarrow> bool" where
  "permiteRenovacion z pol s p hoy =
     (case pol of
        PoliticaEstricta \<Rightarrow> \<not> tieneLibrosVencidos s hoy \<and> \<not> estaVencido p hoy
      | PoliticaFlexible \<Rightarrow> diasVencido p hoy \<le> 7
      | PoliticaEstudiante \<Rightarrow>
          (let mesActual = getMonth z hoy
           in if mesActual \<in> set MESES_EXAMENES then True else \<not> estaVencido p hoy)
      | PoliticaDocente \<Rightarrow>
          (let renovacionesActuales = contarRenovaciones p
           in renovacionesActuales < MAX_RENOVACIONES))"

section \<open>The library\<close>

text \<open>
  The errors the library raises, named by their kind:
  \<^item> \<open>NotFound\<close>: ``Socio o libro no encontrado'';
  \<^item> \<open>Unavailable\<close>: ``Libro no esta disponible'';
  \<^item> \<open>PolicyDenied\<close>: ``No se puede realizar el prestamo segun la politica actual'' and
    ``No se puede renovar el prestamo segun la politica actual'';
  \<^item> \<open>NotWithdrawable\<close>: ``Los libros de referencia solo pueden consultarse en biblioteca'';
  \<^item> \<open>NotBorrowed\<close>: ``El socio no tiene este libro prestado'';
  \<^item> \<open>TypeError\<close>: the error the JavaScript runtime raises for an \<open>instanceof\<close> whose
    right operand is not callable.
\<close>

datatype error =
  NotFound | Unavailable | PolicyDenied | NotWithdrawable | NotBorrowed | TypeError

datatype salida = MultaGenerada int | PrestamoRenovadoHasta "Date option"

text \<open>The state of a \<open>Biblioteca\<close>.  \<open>siguienteRef\<close> is the next free object reference;
  the search collaborators the library also owns are modelled on their own below.\<close>

record Biblioteca =
  inventario :: "Libro list"
  socios :: "Socio list"
  prestamosActivos :: "Prestamo list"
  politicaActual :: IPoliticaPrestamo
  siguienteRef :: nat

definition nuevaBiblioteca :: Biblioteca where
  "nuevaBiblioteca =
     \<lparr>inventario = [], socios = [], prestamosActivos = [],
      politicaActual = PoliticaFactory_crearPolitica FLEXIBLE, siguienteRef = 0\<rparr>"

definition cambiarPolitica :: "TipoPolitica \<Rightarrow> Biblioteca \<Rightarrow> Biblioteca" where
  "cambiarPolitica tipoPolitica b = b\<lparr>politicaActual := PoliticaFactory_crearPolitica tipoPolitica\<rparr>"

definition agregarLibro :: "string \<Rightarrow> string \<Rightarrow> string \<Rightarrow> Biblioteca \<Rightarrow> Libro \<times> Biblioteca" where
  "agregarLibro t a i b =
     (let libroCreado = \<lparr>ref_libro = siguienteRef b, titulo = t, autor = a, isbn = i\<rparr>
      in (libroCreado,
          b\<lparr>inventario := inventario b @ [libroCreado], siguienteRef := Suc (siguienteRef b)\<rparr>))"

definition buscarLibro :: "Biblioteca \<Rightarrow> string \<Rightarrow> Libro option" where
  "buscarLibro b i = find (\<lambda>l. isbn l = i) (inventario b)"

definition registrarSocio ::
  "TipoSocio \<Rightarrow> int \<Rightarrow> string \<Rightarrow> string \<Rightarrow> Biblioteca \<Rightarrow> Socio \<times> Biblioteca" where
  "registrarSocio tipo i n a b =
     (let socioCreado = SocioFactory_crearSocio tipo i n a
      in (socioCreado, b\<lparr>socios := socios b @ [socioCreado]\<rparr>))"

definition buscarSocio :: "Biblioteca \<Rightarrow> int \<Rightarrow> Socio option" where
  "buscarSocio b i = find (\<lambda>s. id_socio s = i) (socios b)"

text \<open>A method that mutates the member object \<open>buscarSocio\<close> returned changes the first
  member of the list with that id, and no other.\<close>

fun enSocio :: "int \<Rightarrow> (Socio \<Rightarrow> Socio) \<Rightarrow> Socio list \<Rightarrow> Socio list" where
  "enSocio i f [] = []"
| "enSocio i f (s # ss) = (if id_socio s = i then f s # ss else s # enSocio i f ss)"

definition estaLibroPrestado :: "Biblioteca \<Rightarrow> Libro \<Rightarrow> bool" where
  "estaLibroPrestado b l =
     list_ex (\<lambda>prestamo. ref_libro (libro prestamo) = ref_libro l) (prestamosActivos b)"

text \<open>
  The test that guards the reference check of \<open>crearPrestamo\<close> is
  \<^verbatim>\<open>prestamo instanceof import("./Prestamo").PrestamoReferencia\<close>.
  Its right operand is the property \<open>PrestamoReferencia\<close> of the promise that the
  dynamic \<open>import(...)\<close> expression returns, which is \<open>undefined\<close>; \<open>instanceof\<close> with a
  right operand that is not callable raises a \<open>TypeError\<close>.  The operator \<open>&&\<close> evaluates
  it only when the kind is \<open>REFERENCIA\<close>.
\<close>

definition instanceof_import_PrestamoReferencia :: "Prestamo \<Rightarrow> error + bool" where
  "instanceof_import_PrestamoReferencia p = Inl TypeError"

text \<open>``Agregar a las listas'': the two pushes that end \<open>crearPrestamo\<close>.  The loan object
  was allocated at \<open>siguienteRef\<close>; a loan that is dropped before it is stored leaves no
  trace, so the reference is consumed only here.\<close>

definition agregarALasListas :: "Prestamo \<Rightarrow> int \<Rightarrow> Biblioteca \<Rightarrow> Biblioteca" where
  "agregarALasListas prestamo socioId' b =
     b\<lparr>prestamosActivos := prestamosActivos b @ [prestamo],
       socios := enSocio socioId' (agregarPrestamo prestamo) (socios b),
       siguienteRef := Suc (siguienteRef b)\<rparr>"

definition crearPrestamo ::
  "zona \<Rightarrow> int \<Rightarrow> string \<Rightarrow> TipoPrestamo \<Rightarrow> Date \<Rightarrow> Biblioteca \<Rightarrow>
   (error + unit) \<times> Biblioteca" where
  "crearPrestamo z socioId' libroISBN tipoPrestamo hoy b =
     (case (buscarSocio b socioId', buscarLibro b libroISBN) of
        (Some socio, Some libro') \<Rightarrow>
          if estaLibroPrestado b libro' then (Inl Unavailable, b)
          else if \<not> Politica_puedeRetirar (politicaActual b) socio libro' hoy
          then (Inl PolicyDenied, b)
          else
            let prestamo =
                  PrestamoFactory_crearPrestamo z tipoPrestamo (siguienteRef b) libro' socioId' hoy
            in if tipoPrestamo = REFERENCIA
               then (case instanceof_import_PrestamoReferencia prestamo of
                       Inl e \<Rightarrow> (Inl e, b)
                     | Inr esReferencia \<Rightarrow>
                         if esReferencia \<and> \<not> PrestamoReferencia_puedeRetirar prestamo
                         then (Inl NotWithdrawable, b)
                         else (Inr (), agregarALasListas prestamo socioId' b))
               else (Inr (), agregarALasListas prestamo socioId' b)
      | _ \<Rightarrow> (Inl NotFound, b))"

definition devolverLibro ::
  "int \<Rightarrow> string \<Rightarrow> Date \<Rightarrow> Biblioteca \<Rightarrow> (error + unit) \<times> Biblioteca \<times> salida list" where
  "devolverLibro socioId' libroISBN hoy b =
     (case (buscarSocio b socioId', buscarLibro b libroISBN) of
        (Some socio, Some libro') \<Rightarrow>
          (case tienePrestadoLibro socio libro' of
             None \<Rightarrow> (Inl NotBorrowed, b, [])
           | Some prestamo \<Rightarrow>
               let multa = calcularMulta prestamo hoy;
                   consola = (if multa > 0 then [MultaGenerada multa] else []);
                   b1 = b\<lparr>socios := enSocio socioId' (removerPrestamo prestamo) (socios b)\<rparr>;
                   indicePrestamo = indexOf (prestamosActivos b1) prestamo
               in if indicePrestamo > - 1
                  then (Inr (),
                        b1\<lparr>prestamosActivos := splice1 (nat indicePrestamo) (prestamosActivos b1)\<rparr>,
                        consola)
                  else (Inr (), b1, consola))
      | _ \<Rightarrow> (Inl NotFound, b, []))"

definition renovarPrestamo ::
  "zona \<Rightarrow> int \<Rightarrow> string \<Rightarrow> Date \<Rightarrow> Biblioteca \<Rightarrow>
   (error + unit) \<times> Biblioteca \<times> salida list" where
  "renovarPrestamo z socioId' libroISBN hoy b =
     (case (buscarSocio b socioId', buscarLibro b libroISBN) of
        (Some socio, Some libro') \<Rightarrow>
          (case tienePrestadoLibro socio libro' of
             None \<Rightarrow> (Inl NotBorrowed, b, [])
           | Some prestamo \<Rightarrow>
               if \<not> permiteRenovacion z (politicaActual b) socio prestamo hoy
               then (Inl PolicyDenied, b, [])
               else
                 let nuevaDuracion =
                       calcularDuracion z (politicaActual b) socio (getDuracionPrestamo socio) hoy;
                     nuevoVencimiento = setDate z hoy (getDate z hoy + nuevaDuracion)
                 in (Inr (), b, [PrestamoRenovadoHasta nuevoVencimiento]))
      | _ \<Rightarrow> (Inl NotFound, b, []))"

definition obtenerPrestamosVencidos :: "Biblioteca \<Rightarrow> Date \<Rightarrow> Prestamo list" where
  "obtenerPrestamosVencidos b hoy = filter (\<lambda>prestamo. estaVencido prestamo hoy) (prestamosActivos b)"

definition obtenerPrestamosPorSocio :: "Biblioteca \<Rightarrow> int \<Rightarrow> Prestamo list" where
  "obtenerPrestamosPorSocio b i = filter (\<lambda>prestamo. socioId prestamo = i) (prestamosActivos b)"

section \<open>Universal search\<close>

text \<open>
  What a search collaborator returns is untyped in the source (\<open>any[]\<close>); the items of the
  model are the four classes \<open>obtenerTipoResultado\<close> tells apart and any other value.
  A collaborator is its \<open>buscarPor\<close> method, which returns a list of items or throws.
\<close>

datatype tipo_recurso = pdf | video | audio | articulo

datatype estado_documento = bueno | regular | deteriorado

datatype item =
  ItemLibro Libro
| ItemRecursoDigital string string tipo_recurso Date
| ItemDocumentoHistorico string Date string string estado_documento
| ItemArticuloAcademico string "string list" string int "string list" string
| ItemOtro string

datatype excepcion = Excepcion string

type_synonym IBuscable = "string \<Rightarrow> excepcion + item list"

text \<open>The labels are the strings ``Libro'', ``Recurso Digital'', ``Documento Historico'',
  ``Articulo Academico'' and ``Desconocido'' of the source.\<close>

datatype etiqueta =
  EtLibro | EtRecursoDigital | EtDocumentoHistorico | EtArticuloAcademico | EtDesconocido

record ResultadoBusqueda =
  tipo :: etiqueta
  resultado :: item
  fuente :: string

definition obtenerTipoResultado :: "item \<Rightarrow> etiqueta" where
  "obtenerTipoResultado r =
     (case r of
        ItemLibro _ \<Rightarrow> EtLibro
      | ItemRecursoDigital _ _ _ _ \<Rightarrow> EtRecursoDigital
      | ItemDocumentoHistorico _ _ _ _ _ \<Rightarrow> EtDocumentoHistorico
      | ItemArticuloAcademico _ _ _ _ _ _ \<Rightarrow> EtArticuloAcademico
      | ItemOtro _ \<Rightarrow> EtDesconocido)"

text \<open>\<open>sistemas\<close> is a JavaScript \<open>Map\<close>: it is read in insertion order, and setting a key
  that is present replaces its value in place.\<close>

type_synonym sistemas = "(string \<times> IBuscable) list"

fun agregarSistema :: "string \<Rightarrow> IBuscable \<Rightarrow> sistemas \<Rightarrow> sistemas" where
  "agregarSistema n s [] = [(n, s)]"
| "agregarSistema n s ((n', s') # m) =
     (if n' = n then (n, s) # m else (n', s') # agregarSistema n s m)"

definition eliminarSistema :: "string \<Rightarrow> sistemas \<Rightarrow> sistemas" where
  "eliminarSistema n m = filter (\<lambda>(n', _). n' \<noteq> n) m"

definition etiquetar :: "string \<Rightarrow> item \<Rightarrow> ResultadoBusqueda" where
  "etiquetar n r = \<lparr>tipo = obtenerTipoResultado r, resultado = r, fuente = n\<rparr>"

text \<open>One turn of the loop of \<open>buscarEnTodos\<close>: the state is the array \<open>resultados\<close> and the
  warnings written to the console.\<close>

definition buscarEnUno ::
  "string \<Rightarrow> ResultadoBusqueda list \<times> (string \<times> excepcion) list \<Rightarrow> string \<times> IBuscable \<Rightarrow>
   ResultadoBusqueda list \<times> (string \<times> excepcion) list" where
  "buscarEnUno criterio estado sistema =
     (case sistema of (n, buscarPor) \<Rightarrow>
        (case estado of (resultados, avisos) \<Rightarrow>
           (case buscarPor criterio of
              Inr resultadosSistema \<Rightarrow> (resultados @ map (etiquetar n) resultadosSistema, avisos)
            | Inl e \<Rightarrow> (resultados, avisos @ [(n, e)]))))"

definition buscarEnTodos ::
  "sistemas \<Rightarrow> string \<Rightarrow> ResultadoBusqueda list \<times> (string \<times> excepcion) list" where
  "buscarEnTodos m criterio = foldl (buscarEnUno criterio) ([], []) m"

definition buscarEnSistema :: "sistemas \<Rightarrow> string \<Rightarrow> string \<Rightarrow> error + (excepcion + item list)" where
  "buscarEnSistema m nombreSistema criterio =
     (case map_of m nombreSistema of
        None \<Rightarrow> Inl NotFound
      | Some sistema \<Rightarrow> Inr (sistema criterio))"

definition obtenerSistemasDisponibles :: "sistemas \<Rightarrow> string list" where
  "obtenerSistemasDisponibles m = map fst m"

section \<open>Reachable states and the pairing of the two loan collections\<close>

definition prestamosDeSocios :: "Biblioteca \<Rightarrow> Prestamo list" where
  "prestamosDeSocios b = concat (map prestamos (socios b))"

text \<open>``Remover de las listas'': what the end of \<open>devolverLibro\<close> does to the member found
  and to the active loans.\<close>

definition quitarDeLasListas :: "Prestamo \<Rightarrow> int \<Rightarrow> Biblioteca \<Rightarrow> Biblioteca" where
  "quitarDeLasListas p sid b =
     b\<lparr>socios := enSocio sid (removerPrestamo p) (socios b),
       prestamosActivos := quitarPrestamo p (prestamosActivos b)\<rparr>"

text \<open>The loans of the members are, counted with multiplicity, the active loans; no two
  active loans are the same object; every reference in use is below the next free one.\<close>

definition invariante :: "Biblioteca \<Rightarrow> bool" where
  "invariante b =
     (mset (prestamosDeSocios b) = mset (prestamosActivos b)
      \<and> distinct (map ref_prestamo (prestamosActivos b))
      \<and> (\<forall>p \<in> set (prestamosActivos b). ref_prestamo p < siguienteRef b))"

text \<open>The states a library goes through from its construction, by the public methods that
  change it (and \<open>renovarPrestamo\<close>), at any clock readings and in any time zone.\<close>

inductive alcanzable :: "Biblioteca \<Rightarrow> bool" where
  inicial: "alcanzable nuevaBiblioteca"
| libro: "alcanzable b \<Longrightarrow> alcanzable (snd (agregarLibro t a i b))"
| socio: "alcanzable b \<Longrightarrow> alcanzable (snd (registrarSocio k sid n a b))"
| politica: "alcanzable b \<Longrightarrow> alcanzable (cambiarPolitica tp b)"
| crear: "alcanzable b \<Longrightarrow> alcanzable (snd (crearPrestamo z sid i k' hoy b))"
| devolver: "alcanzable b \<Longrightarrow> alcanzable (fst (snd (devolverLibro sid i hoy b)))"
| renovar: "alcanzable b \<Longrightarrow> alcanzable (fst (snd (renovarPrestamo z sid i hoy b)))"

section \<open>The aggregation of \<open>buscarEnTodos\<close>, as the specification words it\<close>

text \<open>The tagged results of one collaborator: all of them when its search returns,
  none when it throws.\<close>

definition resultadosDe :: "string \<Rightarrow> string \<times> IBuscable \<Rightarrow> ResultadoBusqueda list" where
  "resultadosDe criterio sistema =
     (case sistema of (n, buscarPor) \<Rightarrow>
        (case buscarPor criterio of Inr rs \<Rightarrow> map (etiquetar n) rs | Inl e \<Rightarrow> []))"

definition avisosDe :: "string \<Rightarrow> string \<times> IBuscable \<Rightarrow> (string \<times> excepcion) list" where
  "avisosDe criterio sistema =
     (case sistema of (n, buscarPor) \<Rightarrow>
        (case buscarPor criterio of Inr rs \<Rightarrow> [] | Inl e \<Rightarrow> [(n, e)]))"

definition searchAll_spec :: "sistemas \<Rightarrow> string \<Rightarrow> ResultadoBusqueda list" where
  "searchAll_spec m criterio = concat (map (resultadosDe criterio) m)"

section \<open>Example states\<close>

text \<open>A library with one regular member and two books, built through its own methods.\<close>

definition socio_y_libros :: Biblioteca where
  "socio_y_libros =
     snd (agregarLibro ''El Silmarillion'' ''Tolkien'' ''isbn-2''
       (snd (agregarLibro ''El Hobbit'' ''Tolkien'' ''isbn-1''
         (snd (registrarSocio SOCIO_REGULAR 1 ''Ana'' ''Paz'' nuevaBiblioteca)))))"

text \<open>The same library after the member borrowed the first book at time \<open>0\<close>, in UTC.\<close>

definition con_prestamo :: Biblioteca where
  "con_prestamo = snd (crearPrestamo zonaUTC 1 ''isbn-1'' REGULAR 0 socio_y_libros)"

text \<open>The loan object that borrowing creates.\<close>

definition prestamo_hobbit :: Prestamo where
  "prestamo_hobbit =
     \<lparr>ref_prestamo = 2, clase = PrestamoRegular,
      libro = \<lparr>ref_libro = 0, titulo = ''El Hobbit'', autor = ''Tolkien'', isbn = ''isbn-1''\<rparr>,
      socioId = 1, fechaPrestamo = 0, fechaVencimiento = Some 1209600000\<rparr>"



text \<open>A library whose only member is a visitor.\<close>

definition con_visitante :: Biblioteca where
  "con_visitante =
     snd (agregarLibro ''El Hobbit'' ''Tolkien'' ''isbn-1''
       (snd (registrarSocio VISITANTE 7 ''Luis'' ''Rey'' nuevaBiblioteca)))"

definition tras_prestamo_visitante :: Biblioteca where
  "tras_prestamo_visitante = snd (crearPrestamo zonaUTC 7 ''isbn-1'' REGULAR 0 con_visitante)"

text \<open>A VIP member holding a regular loan taken at time \<open>0\<close>, in UTC.\<close>

definition libro_ejemplo :: Libro where
  "libro_ejemplo = \<lparr>ref_libro = 0, titulo = ''El Hobbit'', autor = ''Tolkien'', isbn = ''isbn-1''\<rparr>"

definition vip_moroso :: Socio where
  "vip_moroso =
     agregarPrestamo (PrestamoFactory_crearPrestamo zonaUTC REGULAR 1 libro_ejemplo 2 0)
       (SocioFactory_crearSocio VIP 2 ''Eva'' ''Sol'')"

text \<open>A regular loan whose due date and a clock reading, both valid dates, are
  \<open>9504000000000001\<close> milliseconds apart, more than \<open>2 ^ 53\<close>.\<close>

definition prestamo_lejano :: Prestamo where
  "prestamo_lejano =
     nuevoPrestamo zonaUTC PrestamoRegular 1 libro_ejemplo 2 (- 4752000000000000 - 14 * msPerDay)"

definition hoy_lejano :: Date where
  "hoy_lejano = 4752000000000001"

text \<open>A regular loan taken on 1 March 2025 at 12:00 UTC in the zone that changes its offset
  eight days later.\<close>

definition prestamo_con_cambio :: Prestamo where
  "prestamo_con_cambio = nuevoPrestamo zonaConCambio PrestamoRegular 1 libro_ejemplo 2 1740830400000"

text \<open>Three collaborators, the second of which throws.\<close>

definition catalogo_ejemplo :: IBuscable where
  "catalogo_ejemplo criterio = Inr [ItemLibro libro_ejemplo]"

definition sistema_roto :: IBuscable where
  "sistema_roto criterio = Inl (Excepcion ''sin conexion'')"

definition digital_ejemplo :: IBuscable where
  "digital_ejemplo criterio = Inr [ItemRecursoDigital ''Tolkien en audio'' ''http://x/t'' audio 0]"

definition sistemas_ejemplo :: sistemas where
  "sistemas_ejemplo =
     agregarSistema ''Biblioteca Digital'' digital_ejemplo
       (agregarSistema ''Archivo'' sistema_roto
         (agregarSistema ''Catalogo'' catalogo_ejemplo []))"

section \<open>Lemmas on rounding\<close>

lemma bitlen_pos_bounds:
  fixes a :: int
  assumes "a > 0"
  shows "(2::rat) powi (bitlen a - 1) \<le> of_int a" and "of_int a < (2::rat) powi (bitlen a)"
proof -
  from bitlen_bounds [OF assms] have l: "2 ^ nat (bitlen a - 1) \<le> a" and u: "a < 2 ^ nat (bitlen a)"
    by simp_all
  have b1: "bitlen a \<ge> 1" using assms by (auto simp: bitlen_alt_def)
  have "(of_int (2 ^ nat (bitlen a - 1)) :: rat) \<le> of_int a" using l by (simp only: of_int_le_iff)
  then show "(2::rat) powi (bitlen a - 1) \<le> of_int a"
    using b1 by (simp add: power_int_def)
  have "(of_int a :: rat) < of_int (2 ^ nat (bitlen a))" using u by (simp only: of_int_less_iff)
  then show "of_int a < (2::rat) powi (bitlen a)"
    using b1 by (simp add: power_int_def)
qed

lemma exponente_bounds:
  assumes "x > 0"
  shows "2 powi (exponente x) \<le> x \<and> x < 2 powi (exponente x + 1)"
proof -
  obtain a b where q: "quotient_of x = (a, b)" by (cases "quotient_of x") auto
  then have b: "b > 0" by (rule quotient_of_denom_pos)
  from q have x: "x = of_int a / of_int b" by (rule quotient_of_div)
  with assms b have a: "a > 0" by (simp add: zero_less_divide_iff)
  define e where "e = bitlen a - bitlen b"
  have la: "(2::rat) powi (bitlen a - 1) \<le> of_int a" and ua: "of_int a < (2::rat) powi (bitlen a)"
    using bitlen_pos_bounds [OF a] by simp_all
  have lb: "(2::rat) powi (bitlen b - 1) \<le> of_int b" and ub: "of_int b < (2::rat) powi (bitlen b)"
    using bitlen_pos_bounds [OF b] by simp_all
  have bpos: "(0::rat) < of_int b" using b by simp
  have apos: "(0::rat) < of_int a" using a by simp
  have up: "x < 2 powi (e + 1)"
  proof -
    have "x < 2 powi (bitlen a) / of_int b" unfolding x using ua bpos by (simp add: divide_strict_right_mono)
    also have "\<dots> \<le> 2 powi (bitlen a) / 2 powi (bitlen b - 1)"
      using lb by (intro divide_left_mono) (auto intro: mult_pos_pos bpos)
    also have "\<dots> = 2 powi (e + 1)"
      by (simp add: e_def power_int_diff [symmetric] algebra_simps)
    finally show ?thesis .
  qed
  have lo: "2 powi (e - 1) \<le> x"
  proof -
    have "(2::rat) powi (e - 1) = 2 powi (bitlen a - 1) / 2 powi (bitlen b)"
      by (simp add: e_def power_int_diff [symmetric] algebra_simps)
    also have "\<dots> \<le> of_int a / 2 powi (bitlen b)"
      using la by (simp add: divide_right_mono)
    also have "\<dots> \<le> of_int a / of_int b"
      using ub apos bpos by (intro divide_left_mono) (auto simp: less_imp_le)
    finally show ?thesis by (simp add: x)
  qed
  have ex: "exponente x = (if 2 powi e \<le> x then e else e - 1)"
    by (simp add: exponente_def q e_def Let_def)
  show ?thesis
  proof (cases "2 powi e \<le> x")
    case True
    with up ex show ?thesis by simp
  next
    case False
    with lo ex show ?thesis by simp
  qed
qed

lemma exponente_unique:
  assumes "2 powi e \<le> x" and "x < 2 powi (e + 1)"
  shows "exponente x = e"
proof -
  have "(0::rat) < 2 powi e" by simp
  with assms(1) have pos: "x > 0" by linarith
  from exponente_bounds [OF pos] have l: "2 powi (exponente x) \<le> x"
    and u: "x < 2 powi (exponente x + 1)" by simp_all
  have "(2::rat) powi e < 2 powi (exponente x + 1)" using assms(1) u by linarith
  then have 1: "e < exponente x + 1"
    using power_int_increasing [of "exponente x + 1" e "2::rat"] by (cases "e < exponente x + 1") auto
  have "(2::rat) powi (exponente x) < 2 powi (e + 1)" using assms(2) l by linarith
  then have 2: "exponente x < e + 1"
    using power_int_increasing [of "e + 1" "exponente x" "2::rat"] by (cases "exponente x < e + 1") auto
  from 1 2 show ?thesis by simp
qed


lemma redondeoPar_of_int: "redondeoPar (of_int z) = z"
  by (simp add: redondeoPar_def)

lemma redondeoPar_le:
  assumes "m \<le> of_int z"
  shows "redondeoPar m \<le> z"
proof (cases "m = of_int z")
  case True
  then show ?thesis by (simp add: redondeoPar_of_int)
next
  case False
  with assms have "m < of_int z" by simp
  then have "\<lfloor>m\<rfloor> < z" by (simp add: floor_less_iff)
  then show ?thesis by (simp add: redondeoPar_def Let_def)
qed

lemma redondeoPar_ge:
  assumes "of_int z + 1 / 2 < m"
  shows "z + 1 \<le> redondeoPar m"
proof -
  have "of_int z \<le> m" using assms by linarith
  then have f: "z \<le> \<lfloor>m\<rfloor>" by (simp add: le_floor_iff)
  show ?thesis
  proof (cases "\<lfloor>m\<rfloor> = z")
    case True
    with assms have "m - of_int \<lfloor>m\<rfloor> > 1 / 2" by simp
    with True show ?thesis by (simp add: redondeoPar_def Let_def)
  next
    case False
    with f have "z + 1 \<le> \<lfloor>m\<rfloor>" by simp
    then show ?thesis by (simp add: redondeoPar_def Let_def)
  qed
qed

lemma redondear_pos:
  assumes "q > 0"
  shows "redondear q = of_int (redondeoPar (q / 2 powi (exponente q - 52))) * 2 powi (exponente q - 52)"
  using assms by (simp add: redondear_def Let_def)

lemma redondear_of_int:
  assumes "0 < n" and "n < 2 ^ 53"
  shows "redondear (of_int n) = of_int n"
proof -
  define e where "e = exponente (of_int n)"
  have pos: "(0::rat) < of_int n" using assms(1) by simp
  from exponente_bounds [OF pos] have l: "2 powi e \<le> (of_int n :: rat)"
    and u: "(of_int n :: rat) < 2 powi (e + 1)" by (simp_all add: e_def)
  have "(of_int n :: rat) < of_int (2 ^ 53)" using assms(2) by (simp only: of_int_less_iff)
  then have "(2::rat) powi e < 2 powi 53" using l by simp
  then have e52: "e \<le> 52"
    using power_int_increasing [of 53 e "2::rat"] by (cases "e \<le> 52") auto
  define k where "k = nat (52 - e)"
  have u_eq: "(2::rat) powi (e - 52) = 1 / of_int (2 ^ k)"
    using e52 by (simp add: k_def power_int_def nat_diff_distrib field_simps)
  have "of_int n / (2::rat) powi (e - 52) = of_int (n * 2 ^ k)"
    by (simp add: u_eq)
  then have "redondeoPar (of_int n / (2::rat) powi (e - 52)) = n * 2 ^ k"
    by (simp only: redondeoPar_of_int)
  then show ?thesis
    using redondear_pos [OF pos] by (simp add: e_def [symmetric] u_eq)
qed

lemma techo_division:
  fixes d :: int
  assumes "0 < d" and "d < 2 ^ 53"
  shows "Math_ceil (redondear (of_int d / 86400000)) = - ((- d) div 86400000)"
proof -
  define c :: int where "c = 86400000"
  define q :: rat where "q = of_int d / of_int c"
  define e where "e = exponente q"
  define K where "K = - ((- d) div c)"
  have cpos: "(0::rat) < of_int c" by (simp add: c_def)
  have pos: "q > 0" using assms(1) by (simp add: q_def c_def)
  from exponente_bounds [OF pos] have l: "2 powi e \<le> q" by (simp add: e_def)
  have "(of_int d :: rat) < of_int (2 ^ 53)" using assms(2) by (simp only: of_int_less_iff)
  then have dr: "(of_int d :: rat) < 2 ^ 53" by simp
  have "q < 2 ^ 53 / of_int c" unfolding q_def by (rule divide_strict_right_mono [OF dr cpos])
  also have "\<dots> < 2 powi 27" by (simp add: c_def)
  finally have "(2::rat) powi e < 2 powi 27" using l by simp
  then have e26: "e \<le> 26"
    using power_int_increasing [of 27 e "2::rat"] by (cases "e \<le> 26") auto
  define k where "k = nat (52 - e)"
  define N :: int where "N = 2 ^ k"
  have k26: "26 \<le> k" using e26 by (simp add: k_def)
  have "(2::int) ^ 26 \<le> 2 ^ k" using k26 by (intro power_increasing) simp_all
  then have N26: "67108864 \<le> N" by (simp add: N_def)
  then have Npos: "(0::rat) < of_int N" by simp
  have u_eq: "(2::rat) powi (e - 52) = 1 / of_int N"
    using e26 by (simp add: N_def k_def power_int_def nat_diff_distrib field_simps)
  define m :: rat where "m = q / 2 powi (e - 52)"
  have m_eq: "m = of_int (d * N) / of_int c" by (simp add: m_def u_eq q_def)
  have "c * ((- d) div c) \<le> - d" and "- d < c * ((- d) div c) + c"
    using pos_mod_bound [of c "- d"] pos_mod_sign [of c "- d"] mult_div_mod_eq [of c "- d"]
    by (simp_all add: c_def)
  then have dle: "d \<le> K * c" and dgt: "(K - 1) * c + 1 \<le> d"
    by (simp_all add: K_def algebra_simps)
  have "of_int (d * N) \<le> (of_int (K * N * c) :: rat)"
    using dle N26 by (simp only: of_int_le_iff) (simp add: mult_right_mono mult.commute mult.left_commute)
  then have "m \<le> of_int (K * N * c) / of_int c"
    unfolding m_eq using cpos by (simp only: divide_right_mono less_imp_le)
  then have up: "m \<le> of_int (K * N)" using cpos by simp
  have "((K - 1) * c + 1) * N \<le> d * N" using dgt N26 by (simp add: mult_right_mono)
  then have "(of_int (((K - 1) * c + 1) * N) :: rat) \<le> of_int (d * N)" by (simp only: of_int_le_iff)
  then have "of_int (((K - 1) * c + 1) * N) / of_int c \<le> m"
    unfolding m_eq using cpos by (simp only: divide_right_mono less_imp_le)
  moreover have "(of_int (((K - 1) * c + 1) * N) :: rat) / of_int c =
      of_int ((K - 1) * N) + of_int N / of_int c"
    using cpos by (simp add: field_simps)
  moreover have "(1::rat) / 2 < of_int N / of_int c"
  proof -
    have "(of_int c :: rat) < 2 * of_int N" using N26 by (simp add: c_def)
    then show ?thesis using cpos by (simp add: field_simps)
  qed
  ultimately have lo: "of_int ((K - 1) * N) + 1 / 2 < m" by linarith
  define R where "R = redondeoPar m"
  have Rle: "R \<le> K * N" unfolding R_def by (rule redondeoPar_le [OF up])
  have Rge: "(K - 1) * N + 1 \<le> R" unfolding R_def by (rule redondeoPar_ge [OF lo])
  have "redondear q = of_int (redondeoPar m) * 2 powi (e - 52)"
    using redondear_pos [OF pos] by (simp only: e_def m_def)
  then have red: "redondear q = of_int R / of_int N"
    by (simp add: R_def u_eq)
  have "(of_int R :: rat) \<le> of_int (K * N)" using Rle by (simp only: of_int_le_iff)
  then have c1: "redondear q \<le> of_int K"
    unfolding red using Npos by (simp add: field_simps)
  have "(K - 1) * N < R" using Rge by simp
  then have "(of_int ((K - 1) * N) :: rat) < of_int R" by (simp only: of_int_less_iff)
  then have c2: "of_int K - 1 < redondear q"
    unfolding red using Npos by (simp add: field_simps)
  have "\<lceil>redondear q\<rceil> = K" using c1 c2 by (simp add: ceiling_unique)
  then show ?thesis by (simp add: Math_ceil_def q_def c_def K_def)
qed

section \<open>Lemmas on dates\<close>

lemma Day_TimeWithinDay: "Day t * msPerDay + TimeWithinDay t = t"
  by (simp add: Day_def TimeWithinDay_def)

lemma setDate_getDate:
  "setDate z t (getDate z t + n) = TimeClip (UTC z (LocalTime z t + n * msPerDay))"
proof -
  define tl where "tl = LocalTime z t"
  have "MakeDay (YearFromTime tl) (MonthFromTime tl) (DateFromTime tl + n) = Day tl + n"
    by (simp add: MakeDay_def DateFromTime_def DayWithinYear_def)
  then have "MakeDate (MakeDay (YearFromTime tl) (MonthFromTime tl) (DateFromTime tl + n))
               (TimeWithinDay tl) = (Day tl + n) * msPerDay + TimeWithinDay tl"
    by (simp add: MakeDate_def)
  also have "\<dots> = tl + n * msPerDay"
    using Day_TimeWithinDay [of tl] by (simp add: algebra_simps)
  finally show ?thesis
    by (simp add: setDate_def getDate_def tl_def Let_def)
qed

lemma getMonth_range: "0 \<le> getMonth z t \<and> getMonth z t \<le> 11"
  by (simp add: getMonth_def MonthFromTime_def monthOfDay_def Let_def)

lemma techo_div: "- ((- a) div msPerDay) = \<lceil>real_of_int a / real_of_int msPerDay\<rceil>"
  by (simp only: ceiling_divide_eq_div)

lemma diasVencido_exacto:
  assumes "fechaVencimiento p = Some v" and "hoy - v < 2 ^ 53"
  shows "diasVencido p hoy = (if hoy \<le> v then 0 else - ((- (hoy - v)) div msPerDay))"
proof (cases "hoy \<le> v")
  case True
  with assms(1) show ?thesis by (simp add: diasVencido_def estaVencido_def)
next
  case False
  then have pos: "0 < hoy - v" by simp
  have "redondear (of_int hoy - of_int v) = of_int (hoy - v)"
    using redondear_of_int [OF pos assms(2)] by simp
  then have "diasVencido p hoy = Math_ceil (redondear (of_int (hoy - v) / 86400000))"
    using False assms(1) by (simp add: diasVencido_def estaVencido_def getTime_def)
  with False show ?thesis
    using techo_division [OF pos assms(2)] by (simp add: msPerDay_def)
qed

section \<open>Lemmas on the loan collections\<close>

lemma indexOf_ge: "- 1 \<le> indexOf ps p"
  by (induction ps) (auto simp: Let_def)

lemma indexOf_found: "(indexOf ps p > - 1) = (\<exists>q \<in> set ps. ref_prestamo q = ref_prestamo p)"
  by (induction ps) (auto simp: Let_def)

lemma quitar_Nil: "quitarPrestamo p [] = []"
  by (simp add: quitarPrestamo_def)

lemma quitar_Cons:
  "quitarPrestamo p (q # qs) =
     (if ref_prestamo q = ref_prestamo p then qs else q # quitarPrestamo p qs)"
proof (cases "ref_prestamo q = ref_prestamo p")
  case True
  then show ?thesis by (simp add: quitarPrestamo_def splice1_def)
next
  case False
  show ?thesis
  proof (cases "indexOf qs p > - 1")
    case True
    then have "nat (indexOf qs p + 1) = Suc (nat (indexOf qs p))" by simp
    with True False show ?thesis
      by (simp add: quitarPrestamo_def splice1_def Let_def)
  next
    case no: False
    with False show ?thesis by (simp add: quitarPrestamo_def Let_def)
  qed
qed

lemma quitar_mset:
  "p \<in> set ps \<Longrightarrow> distinct (map ref_prestamo ps) \<Longrightarrow>
   mset (quitarPrestamo p ps) = mset ps - {#p#}"
proof (induction ps)
  case Nil
  then show ?case by simp
next
  case (Cons q qs)
  show ?case
  proof (cases "ref_prestamo q = ref_prestamo p")
    case True
    with Cons.prems have "q = p" by (auto simp: image_iff)
    then show ?thesis by (simp add: quitar_Cons)
  next
    case False
    with Cons show ?thesis by (auto simp: quitar_Cons)
  qed
qed

lemma quitar_absent:
  "\<forall>q \<in> set ps. ref_prestamo q \<noteq> ref_prestamo p \<Longrightarrow> quitarPrestamo p ps = ps"
  by (induction ps) (auto simp: quitar_Cons quitar_Nil)

lemma quitar_last:
  "\<forall>q \<in> set ps. ref_prestamo q \<noteq> ref_prestamo p \<Longrightarrow> quitarPrestamo p (ps @ [p]) = ps"
  by (induction ps) (auto simp: quitar_Cons quitar_Nil)

lemma enSocio_find:
  "find (\<lambda>s. id_socio s = i) ss = Some s \<Longrightarrow>
   mset (concat (map prestamos (enSocio i f ss))) + mset (prestamos s) =
   mset (concat (map prestamos ss)) + mset (prestamos (f s))"
  by (induction ss) (auto split: if_splits)

lemma enSocio_agregar:
  "find (\<lambda>s. id_socio s = i) ss = Some s \<Longrightarrow>
   mset (concat (map prestamos (enSocio i (agregarPrestamo p) ss))) =
   add_mset p (mset (concat (map prestamos ss)))"
  by (induction ss) (auto simp: agregarPrestamo_def split: if_splits)

lemma find_mem: "find P xs = Some x \<Longrightarrow> x \<in> set xs \<and> P x"
  by (induction xs) (auto split: if_splits)

lemma quitar_add:
  "p \<in> set ps \<Longrightarrow> distinct (map ref_prestamo ps) \<Longrightarrow>
   add_mset p (mset (quitarPrestamo p ps)) = mset ps"
  by (simp add: quitar_mset)

lemma enSocio_remover:
  "find (\<lambda>s. id_socio s = i) ss = Some s \<Longrightarrow> p \<in> set (prestamos s) \<Longrightarrow>
   distinct (map ref_prestamo (prestamos s)) \<Longrightarrow>
   add_mset p (mset (concat (map prestamos (enSocio i (removerPrestamo p) ss)))) =
   mset (concat (map prestamos ss))"
proof (induction ss)
  case Nil
  then show ?case by simp
next
  case (Cons a ss)
  show ?case
  proof (cases "id_socio a = i")
    case True
    with Cons.prems have "a = s" by simp
    with True Cons.prems show ?thesis
      using quitar_add [of p "prestamos s"] by (simp add: removerPrestamo_def)
  next
    case False
    with Cons.prems have "find (\<lambda>s. id_socio s = i) ss = Some s" by simp
    from Cons.IH [OF this Cons.prems(2,3)] False show ?thesis by simp
  qed
qed

lemma find_enSocio:
  "find (\<lambda>s. id_socio s = i) ss = Some s \<Longrightarrow> id_socio (f s) = i \<Longrightarrow>
   find (\<lambda>s. id_socio s = i) (enSocio i f ss) = Some (f s)"
  by (induction ss) (auto split: if_splits)

lemma enSocio_enSocio:
  "find (\<lambda>s. id_socio s = i) ss = Some s \<Longrightarrow> id_socio (f s) = i \<Longrightarrow> g (f s) = s \<Longrightarrow>
   enSocio i g (enSocio i f ss) = ss"
  by (induction ss) (auto split: if_splits)


lemma crear_casos:
  assumes "crearPrestamo z sid i k hoy b = (r, b')"
  shows "(\<exists>e. r = Inl e \<and> b' = b) \<or>
         (r = Inr () \<and> k \<noteq> REFERENCIA \<and>
          (\<exists>s l. buscarSocio b sid = Some s \<and> buscarLibro b i = Some l
             \<and> \<not> estaLibroPrestado b l
             \<and> Politica_puedeRetirar (politicaActual b) s l hoy
             \<and> b' = agregarALasListas
                      (PrestamoFactory_crearPrestamo z k (siguienteRef b) l sid hoy) sid b))"
  using assms
  by (auto simp: crearPrestamo_def instanceof_import_PrestamoReferencia_def Let_def
      split: option.splits if_splits)

lemma devolver_casos:
  assumes "devolverLibro sid i hoy b = (r, b', out)"
  shows "(\<exists>e. r = Inl e \<and> b' = b \<and> out = []) \<or>
         (r = Inr () \<and>
          (\<exists>s l p. buscarSocio b sid = Some s \<and> buscarLibro b i = Some l
             \<and> tienePrestadoLibro s l = Some p
             \<and> b' = quitarDeLasListas p sid b))"
  using assms
  by (auto simp: devolverLibro_def quitarDeLasListas_def quitarPrestamo_def Let_def
      split: option.splits if_splits)

lemma renovar_igual: "fst (snd (renovarPrestamo z sid i hoy b)) = b"
  by (simp add: renovarPrestamo_def Let_def split: option.splits)

lemma inv_inicial: "invariante nuevaBiblioteca"
  by (simp add: invariante_def nuevaBiblioteca_def prestamosDeSocios_def)

lemma inv_libro: "invariante b \<Longrightarrow> invariante (snd (agregarLibro t a i b))"
  by (auto simp: invariante_def agregarLibro_def prestamosDeSocios_def Let_def)

lemma inv_socio: "invariante b \<Longrightarrow> invariante (snd (registrarSocio k sid n a b))"
  by (cases k)
     (auto simp: invariante_def registrarSocio_def prestamosDeSocios_def Let_def
        SocioFactory_crearSocio_def nuevoSocio_def)

lemma inv_politica: "invariante b \<Longrightarrow> invariante (cambiarPolitica tp b)"
  by (simp add: invariante_def cambiarPolitica_def prestamosDeSocios_def)

lemma inv_agregar:
  assumes "invariante b" and "buscarSocio b sid = Some s" and "ref_prestamo p = siguienteRef b"
  shows "invariante (agregarALasListas p sid b)"
proof -
  from assms(2) have f: "find (\<lambda>s. id_socio s = sid) (socios b) = Some s"
    by (simp add: buscarSocio_def)
  have fresh: "ref_prestamo p \<notin> ref_prestamo ` set (prestamosActivos b)"
    using assms(1,3) by (auto simp: invariante_def)
  show ?thesis
    using assms(1,3) fresh enSocio_agregar [OF f, of p]
    by (auto simp: invariante_def agregarALasListas_def prestamosDeSocios_def less_Suc_eq)
qed

lemma ref_factory: "ref_prestamo (PrestamoFactory_crearPrestamo z k r l sid hoy) = r"
  by (cases k) (simp_all add: PrestamoFactory_crearPrestamo_def nuevoPrestamo_def)

lemma libro_factory: "libro (PrestamoFactory_crearPrestamo z k r l sid hoy) = l"
  by (cases k) (simp_all add: PrestamoFactory_crearPrestamo_def nuevoPrestamo_def)

lemma inv_crear: "invariante b \<Longrightarrow> invariante (snd (crearPrestamo z sid i k hoy b))"
  using crear_casos [of z sid i k hoy b "fst (crearPrestamo z sid i k hoy b)"
      "snd (crearPrestamo z sid i k hoy b)"]
  by (auto simp: inv_agregar ref_factory)

lemma socio_distinct:
  assumes "invariante b" and "s \<in> set (socios b)"
  shows "distinct (map ref_prestamo (prestamos s))"
proof -
  have "mset (map ref_prestamo (prestamosDeSocios b)) = mset (map ref_prestamo (prestamosActivos b))"
    using assms(1) by (simp add: invariante_def)
  then have "distinct (map ref_prestamo (prestamosDeSocios b))"
    using assms(1) mset_eq_imp_distinct_iff invariante_def by blast
  then have "distinct (concat (map (map ref_prestamo) (map prestamos (socios b))))"
    by (simp add: prestamosDeSocios_def map_concat)
  then show ?thesis using assms(2) by (auto simp: distinct_concat_iff)
qed

lemma socio_activos:
  assumes "invariante b" and "s \<in> set (socios b)" and "p \<in> set (prestamos s)"
  shows "p \<in> set (prestamosActivos b)"
proof -
  have "p \<in> set (prestamosDeSocios b)" using assms(2,3) by (auto simp: prestamosDeSocios_def)
  moreover have "set (prestamosDeSocios b) = set (prestamosActivos b)"
    using assms(1) by (auto simp: invariante_def dest: mset_eq_setD)
  ultimately show ?thesis by simp
qed

lemma inv_quitar:
  assumes "invariante b" and "buscarSocio b sid = Some s" and "p \<in> set (prestamos s)"
  shows "invariante (quitarDeLasListas p sid b)"
proof -
  from assms(2) have f: "find (\<lambda>s. id_socio s = sid) (socios b) = Some s"
    by (simp add: buscarSocio_def)
  then have mem: "s \<in> set (socios b)" using find_mem by fastforce
  have d: "distinct (map ref_prestamo (prestamos s))" by (rule socio_distinct [OF assms(1) mem])
  have act: "p \<in> set (prestamosActivos b)" by (rule socio_activos [OF assms(1) mem assms(3)])
  have dA: "distinct (map ref_prestamo (prestamosActivos b))" using assms(1) by (simp add: invariante_def)
  have m1: "add_mset p (mset (concat (map prestamos (enSocio sid (removerPrestamo p) (socios b))))) =
        mset (prestamosDeSocios b)"
    using enSocio_remover [OF f assms(3) d] by (simp add: prestamosDeSocios_def)
  have m2: "add_mset p (mset (quitarPrestamo p (prestamosActivos b))) = mset (prestamosActivos b)"
    by (rule quitar_add [OF act dA])
  have sync: "mset (concat (map prestamos (enSocio sid (removerPrestamo p) (socios b)))) =
        mset (quitarPrestamo p (prestamosActivos b))"
  proof -
    have "add_mset p (mset (concat (map prestamos (enSocio sid (removerPrestamo p) (socios b))))) =
          add_mset p (mset (quitarPrestamo p (prestamosActivos b)))"
      using m1 m2 assms(1) by (simp add: invariante_def)
    then show ?thesis by simp
  qed
  have "set_mset (add_mset p (mset (quitarPrestamo p (prestamosActivos b)))) =
        set_mset (mset (prestamosActivos b))"
    using m2 by simp
  then have sub: "set (quitarPrestamo p (prestamosActivos b)) \<subseteq> set (prestamosActivos b)"
    by auto
  have "mset (map ref_prestamo (p # quitarPrestamo p (prestamosActivos b))) =
        mset (map ref_prestamo (prestamosActivos b))"
    using m2 by (metis mset.simps(2) mset_map)
  then have "distinct (map ref_prestamo (p # quitarPrestamo p (prestamosActivos b)))"
    using dA mset_eq_imp_distinct_iff by blast
  then have dQ: "distinct (map ref_prestamo (quitarPrestamo p (prestamosActivos b)))"
    by simp
  show ?thesis
    using sync sub dQ assms(1)
    by (auto simp: invariante_def quitarDeLasListas_def prestamosDeSocios_def)
qed


lemma inv_devolver: "invariante b \<Longrightarrow> invariante (fst (snd (devolverLibro sid i hoy b)))"
proof -
  assume inv: "invariante b"
  obtain r b' out where d: "devolverLibro sid i hoy b = (r, b', out)"
    by (cases "devolverLibro sid i hoy b") auto
  from devolver_casos [OF d] have "invariante b'"
  proof
    assume "\<exists>e. r = Inl e \<and> b' = b \<and> out = []"
    with inv show ?thesis by auto
  next
    assume "r = Inr () \<and> (\<exists>s l p. buscarSocio b sid = Some s \<and> buscarLibro b i = Some l
             \<and> tienePrestadoLibro s l = Some p \<and> b' = quitarDeLasListas p sid b)"
    then obtain s l p where s: "buscarSocio b sid = Some s"
      and p: "tienePrestadoLibro s l = Some p" and b': "b' = quitarDeLasListas p sid b"
      by blast
    from p have "p \<in> set (prestamos s)"
      using find_mem by (fastforce simp: tienePrestadoLibro_def)
    with inv s b' show ?thesis by (simp add: inv_quitar)
  qed
  with d show ?thesis by simp
qed

lemma alcanzable_invariante: "alcanzable b \<Longrightarrow> invariante b"
  by (induction rule: alcanzable.induct)
     (simp_all add: inv_inicial inv_libro inv_socio inv_politica inv_crear inv_devolver
        renovar_igual)

lemma devolver_exito:
  assumes "buscarSocio b sid = Some s" and "buscarLibro b i = Some l"
    and "tienePrestadoLibro s l = Some p"
  shows "devolverLibro sid i hoy b =
           (Inr (), quitarDeLasListas p sid b,
            if calcularMulta p hoy > 0 then [MultaGenerada (calcularMulta p hoy)] else [])"
  using assms
  by (simp add: devolverLibro_def quitarDeLasListas_def quitarPrestamo_def Let_def)

lemma find_append_last:
  "\<forall>x \<in> set xs. \<not> P x \<Longrightarrow> P y \<Longrightarrow> find P (xs @ [y]) = Some y"
  by (induction xs) auto

lemma quitar_agregar:
  assumes inv: "invariante b" and s: "buscarSocio b sid = Some s"
    and r: "ref_prestamo p = siguienteRef b"
  shows "quitarDeLasListas p sid (agregarALasListas p sid b) =
           b\<lparr>siguienteRef := Suc (siguienteRef b)\<rparr>"
proof -
  from s have f: "find (\<lambda>s. id_socio s = sid) (socios b) = Some s"
    by (simp add: buscarSocio_def)
  then have mem: "s \<in> set (socios b)" and ids: "id_socio s = sid"
    using find_mem by fastforce+
  have frA: "\<forall>q \<in> set (prestamosActivos b). ref_prestamo q \<noteq> ref_prestamo p"
    using inv r by (auto simp: invariante_def)
  then have frS: "\<forall>q \<in> set (prestamos s). ref_prestamo q \<noteq> ref_prestamo p"
    using socio_activos [OF inv mem] by blast
  have "removerPrestamo p (agregarPrestamo p s) = s"
    using quitar_last [OF frS] by (simp add: removerPrestamo_def agregarPrestamo_def)
  then have "enSocio sid (removerPrestamo p) (enSocio sid (agregarPrestamo p) (socios b)) = socios b"
    using enSocio_enSocio [OF f, of "agregarPrestamo p" "removerPrestamo p"] ids
    by (simp add: agregarPrestamo_def)
  then show ?thesis
    using quitar_last [OF frA] by (simp add: quitarDeLasListas_def agregarALasListas_def)
qed

section \<open>Evaluation of the example states\<close>

lemma vencimiento_regular:
  "calcularVencimiento z PrestamoRegular t = TimeClip (UTC z (LocalTime z t + 14 * msPerDay))"
  by (simp add: calcularVencimiento_def DURACION_DIAS_def setDate_getDate)

lemmas evaluar_biblioteca =
  agregarLibro_def registrarSocio_def nuevaBiblioteca_def SocioFactory_crearSocio_def
  nuevoSocio_def PoliticaFactory_crearPolitica_def crearPrestamo_def buscarSocio_def
  buscarLibro_def estaLibroPrestado_def Politica_puedeRetirar_def
  PrestamoFactory_crearPrestamo_def nuevoPrestamo_def agregarALasListas_def
  agregarPrestamo_def vencimiento_regular cambiarPolitica_def tieneLibrosVencidos_def
  estaVencido_def instanceof_import_PrestamoReferencia_def msPerDay_def Let_def
  LocalTime_def UTC_def TimeClip_def zonaUTC_def

lemma socio_y_libros_eq:
  "socio_y_libros =
     \<lparr>inventario =
        [\<lparr>ref_libro = 0, titulo = ''El Hobbit'', autor = ''Tolkien'', isbn = ''isbn-1''\<rparr>,
         \<lparr>ref_libro = 1, titulo = ''El Silmarillion'', autor = ''Tolkien'', isbn = ''isbn-2''\<rparr>],
      socios =
        [\<lparr>id_socio = 1, nombre = ''Ana'', apellido = ''Paz'', claseSocio = SocioRegular,
          prestamos = []\<rparr>],
      prestamosActivos = [], politicaActual = PoliticaFlexible, siguienteRef = 2\<rparr>"
  by (simp add: socio_y_libros_def evaluar_biblioteca)

lemma crear_ejemplo:
  "crearPrestamo zonaUTC 1 ''isbn-1'' REGULAR 0 socio_y_libros =
     (Inr (),
      \<lparr>inventario =
        [\<lparr>ref_libro = 0, titulo = ''El Hobbit'', autor = ''Tolkien'', isbn = ''isbn-1''\<rparr>,
         \<lparr>ref_libro = 1, titulo = ''El Silmarillion'', autor = ''Tolkien'', isbn = ''isbn-2''\<rparr>],
      socios =
        [\<lparr>id_socio = 1, nombre = ''Ana'', apellido = ''Paz'', claseSocio = SocioRegular,
          prestamos = [prestamo_hobbit]\<rparr>],
      prestamosActivos = [prestamo_hobbit], politicaActual = PoliticaFlexible,
      siguienteRef = 3\<rparr>)"
  by (simp add: socio_y_libros_eq prestamo_hobbit_def evaluar_biblioteca)

lemma con_prestamo_eq:
  "con_prestamo =
      \<lparr>inventario =
        [\<lparr>ref_libro = 0, titulo = ''El Hobbit'', autor = ''Tolkien'', isbn = ''isbn-1''\<rparr>,
         \<lparr>ref_libro = 1, titulo = ''El Silmarillion'', autor = ''Tolkien'', isbn = ''isbn-2''\<rparr>],
      socios =
        [\<lparr>id_socio = 1, nombre = ''Ana'', apellido = ''Paz'', claseSocio = SocioRegular,
          prestamos = [prestamo_hobbit]\<rparr>],
      prestamosActivos = [prestamo_hobbit], politicaActual = PoliticaFlexible,
      siguienteRef = 3\<rparr>"
  by (simp add: con_prestamo_def crear_ejemplo)

lemma alcanzable_socio_y_libros: "alcanzable socio_y_libros"
  unfolding socio_y_libros_def by (intro alcanzable.intros)

lemma alcanzable_con_prestamo: "alcanzable con_prestamo"
  unfolding con_prestamo_def by (intro alcanzable.intros alcanzable_socio_y_libros)

lemma con_visitante_eq:
  "con_visitante =
     \<lparr>inventario = [libro_ejemplo],
      socios =
        [\<lparr>id_socio = 7, nombre = ''Luis'', apellido = ''Rey'', claseSocio = Visitante,
          prestamos = []\<rparr>],
      prestamosActivos = [], politicaActual = PoliticaFlexible, siguienteRef = 1\<rparr>"
  by (simp add: con_visitante_def libro_ejemplo_def evaluar_biblioteca)

lemmas evaluar_mes =
  getMonth_def MonthFromTime_def YearFromTime_def Day_def DayFromYear_def DayWithinYear_def
  esBisiesto_def monthOfDay_def msPerDay_def LocalTime_def Let_def

lemma mes_enero: "getMonth zonaUTC 0 = 0"
  by (simp add: evaluar_mes zonaUTC_def)

lemma mes_junio: "getMonth zonaUTC 1750000000000 = 5"
  by (simp add: evaluar_mes zonaUTC_def)

lemma mes_febrero_local: "getMonth zonaConCambio 1740790800000 = 1"
  by (simp add: evaluar_mes zonaConCambio_def)

section \<open>Both collections change together\<close>

lemma quitar_ambas:
  assumes "invariante b" and "buscarSocio b sid = Some s" and "p \<in> set (prestamos s)"
  shows "add_mset p (mset (prestamosActivos (quitarDeLasListas p sid b))) =
           mset (prestamosActivos b)
       \<and> add_mset p (mset (prestamosDeSocios (quitarDeLasListas p sid b))) =
           mset (prestamosDeSocios b)
       \<and> p \<notin> set (prestamosActivos (quitarDeLasListas p sid b))
       \<and> p \<notin> set (prestamosDeSocios (quitarDeLasListas p sid b))"
proof -
  from assms(2) have f: "find (\<lambda>s. id_socio s = sid) (socios b) = Some s"
    by (simp add: buscarSocio_def)
  then have mem: "s \<in> set (socios b)" using find_mem by fastforce
  have d: "distinct (map ref_prestamo (prestamos s))" by (rule socio_distinct [OF assms(1) mem])
  have act: "p \<in> set (prestamosActivos b)" by (rule socio_activos [OF assms(1) mem assms(3)])
  have dA: "distinct (map ref_prestamo (prestamosActivos b))"
    using assms(1) by (simp add: invariante_def)
  have m1: "add_mset p (mset (prestamosDeSocios (quitarDeLasListas p sid b))) =
        mset (prestamosDeSocios b)"
    using enSocio_remover [OF f assms(3) d] by (simp add: prestamosDeSocios_def quitarDeLasListas_def)
  have m2: "add_mset p (mset (prestamosActivos (quitarDeLasListas p sid b))) =
        mset (prestamosActivos b)"
    using quitar_add [OF act dA] by (simp add: quitarDeLasListas_def)
  have "mset (p # prestamosActivos (quitarDeLasListas p sid b)) = mset (prestamosActivos b)"
    using m2 by simp
  moreover have "distinct (prestamosActivos b)" using dA by (simp add: distinct_map)
  ultimately have "distinct (p # prestamosActivos (quitarDeLasListas p sid b))"
    using mset_eq_imp_distinct_iff by blast
  then have n2: "p \<notin> set (prestamosActivos (quitarDeLasListas p sid b))" by simp
  have "invariante (quitarDeLasListas p sid b)" by (rule inv_quitar [OF assms])
  then have "set (prestamosDeSocios (quitarDeLasListas p sid b)) =
             set (prestamosActivos (quitarDeLasListas p sid b))"
    by (auto simp: invariante_def dest: mset_eq_setD)
  with n2 m1 m2 show ?thesis by simp
qed

lemma crear_atomico:
  assumes inv: "invariante b" and c: "crearPrestamo z sid i k' hoy b = (r, b')"
  shows "case r of
           Inl e \<Rightarrow> socios b' = socios b \<and> prestamosActivos b' = prestamosActivos b
         | Inr u \<Rightarrow>
             (\<exists>p s. buscarSocio b sid = Some s
                \<and> p \<notin> set (prestamosActivos b)
                \<and> prestamosActivos b' = prestamosActivos b @ [p]
                \<and> socios b' = enSocio sid (agregarPrestamo p) (socios b)
                \<and> buscarSocio b' sid = Some (agregarPrestamo p s))"
proof -
  from crear_casos [OF c] show ?thesis
  proof
    assume "\<exists>e. r = Inl e \<and> b' = b"
    then show ?thesis by auto
  next
    assume ok: "r = Inr () \<and> k' \<noteq> REFERENCIA \<and>
          (\<exists>s l. buscarSocio b sid = Some s \<and> buscarLibro b i = Some l
             \<and> \<not> estaLibroPrestado b l
             \<and> Politica_puedeRetirar (politicaActual b) s l hoy
             \<and> b' = agregarALasListas
                      (PrestamoFactory_crearPrestamo z k' (siguienteRef b) l sid hoy) sid b)"
    then obtain s l where s: "buscarSocio b sid = Some s"
      and b': "b' = agregarALasListas
                      (PrestamoFactory_crearPrestamo z k' (siguienteRef b) l sid hoy) sid b"
      by blast
    define p where "p = PrestamoFactory_crearPrestamo z k' (siguienteRef b) l sid hoy"
    have nA: "p \<notin> set (prestamosActivos b)"
      using inv by (auto simp: invariante_def p_def ref_factory)
    from s have f: "find (\<lambda>s. id_socio s = sid) (socios b) = Some s"
      by (simp add: buscarSocio_def)
    then have ids: "id_socio s = sid" using find_mem by fastforce
    have "buscarSocio b' sid = Some (agregarPrestamo p s)"
      using find_enSocio [OF f, of "agregarPrestamo p"] ids
      by (simp add: b' p_def buscarSocio_def agregarALasListas_def agregarPrestamo_def)
    with s nA ok show ?thesis
      by (auto simp: b' p_def agregarALasListas_def)
  qed
qed

lemma devolver_atomico:
  assumes inv: "invariante b" and d: "devolverLibro sid i hoy b = (r, b', out)"
  shows "case r of
           Inl e \<Rightarrow> socios b' = socios b \<and> prestamosActivos b' = prestamosActivos b
         | Inr u \<Rightarrow>
             (\<exists>p s. buscarSocio b sid = Some s
                \<and> p \<in> set (prestamos s) \<and> p \<in> set (prestamosActivos b)
                \<and> add_mset p (mset (prestamosActivos b')) = mset (prestamosActivos b)
                \<and> add_mset p (mset (prestamosDeSocios b')) = mset (prestamosDeSocios b)
                \<and> p \<notin> set (prestamosActivos b')
                \<and> p \<notin> set (prestamosDeSocios b'))"
proof -
  from devolver_casos [OF d] show ?thesis
  proof
    assume "\<exists>e. r = Inl e \<and> b' = b \<and> out = []"
    then show ?thesis by auto
  next
    assume "r = Inr () \<and> (\<exists>s l p. buscarSocio b sid = Some s \<and> buscarLibro b i = Some l
             \<and> tienePrestadoLibro s l = Some p \<and> b' = quitarDeLasListas p sid b)"
    then obtain s l p where r: "r = Inr ()" and s: "buscarSocio b sid = Some s"
      and p: "tienePrestadoLibro s l = Some p" and b': "b' = quitarDeLasListas p sid b"
      by blast
    from p have ps: "p \<in> set (prestamos s)"
      using find_mem by (fastforce simp: tienePrestadoLibro_def)
    from s have "find (\<lambda>s. id_socio s = sid) (socios b) = Some s"
      by (simp add: buscarSocio_def)
    then have mem: "s \<in> set (socios b)" using find_mem by fastforce
    have pa: "p \<in> set (prestamosActivos b)" by (rule socio_activos [OF inv mem ps])
    from quitar_ambas [OF inv s ps] r s ps pa show ?thesis
      by (auto simp: b')
  qed
qed

lemma buscar_fold:
  "foldl (buscarEnUno c) (rs, av) m =
     (rs @ concat (map (resultadosDe c) m), av @ concat (map (avisosDe c) m))"
  by (induction m arbitrary: rs av)
     (auto simp: buscarEnUno_def resultadosDe_def avisosDe_def split: sum.splits)

section \<open>The claims\<close>

text \<open>
  C1.  The claim: after a successful \<open>crearPrestamo\<close> the member holds no more loans than
  \<open>getMaximoLibros\<close> allows, and \<open>crearPrestamo\<close> always fails for a visitor.
  \<open>crearPrestamo\<close> asks the active policy only; it never calls \<open>Socio.puedeRetirar\<close> nor
  \<open>getMaximoLibros\<close>.  In a new library (flexible policy) with one visitor and one book,
  the visitor's request for a regular loan succeeds: afterwards the visitor holds one
  loan, with a maximum of zero, although \<open>Visitante.puedeRetirar\<close> answers false.
\<close>

theorem visitante_retira:
  "fst (crearPrestamo zonaUTC 7 ''isbn-1'' REGULAR 0 con_visitante) = Inr ()
   \<and> map claseSocio (socios tras_prestamo_visitante) = [Visitante]
   \<and> map librosEnPrestamo (socios tras_prestamo_visitante) = [1]
   \<and> map getMaximoLibros (socios tras_prestamo_visitante) = [0]
   \<and> map (\<lambda>s. Socio_puedeRetirar s libro_ejemplo) (socios con_visitante) = [False]"
  by (simp add: tras_prestamo_visitante_def con_visitante_eq libro_ejemplo_def
      evaluar_biblioteca librosEnPrestamo_def getMaximoLibros_def Socio_puedeRetirar_def
      zero_enat_def)

text \<open>
  C2.  The claim: \<open>crearPrestamo\<close> with the kind \<open>REFERENCIA\<close> fails with the error
  ``Los libros de referencia solo pueden consultarse en biblioteca''.  For a member and
  an available book that the policy lets through, the call fails, and stores nothing,
  but with the \<open>TypeError\<close> of the \<open>instanceof\<close> test that precedes the withdrawal check.
\<close>

theorem referencia_TypeError:
  "crearPrestamo zonaUTC 1 ''isbn-1'' REFERENCIA 0 socio_y_libros = (Inl TypeError, socio_y_libros)"
  by (simp add: socio_y_libros_eq evaluar_biblioteca)

text \<open>In every state a reference loan is never created, and the error is never the one
  of the withdrawal check.\<close>

lemma referencia_nunca:
  "fst (crearPrestamo z sid i REFERENCIA hoy b) \<noteq> Inr ()
   \<and> fst (crearPrestamo z sid i REFERENCIA hoy b) \<noteq> Inl NotWithdrawable
   \<and> snd (crearPrestamo z sid i REFERENCIA hoy b) = b"
  by (simp add: crearPrestamo_def instanceof_import_PrestamoReferencia_def Let_def
      split: option.splits)

text \<open>
  C3.  When \<open>renovarPrestamo\<close> succeeds the library is the one it was before the call:
  the member found, the loans the member holds with their due dates, and the active loans
  are unchanged.  The member, the book and the loan resolved, the policy allowed the
  renewal, and the only effect is the line written to the console, with the due date
  the renewal would give: the policy's duration, in calendar days of local time, after
  the clock reading.
\<close>

theorem renovar_sin_efecto:
  assumes "renovarPrestamo z sid i hoy b = (Inr (), b', out)"
  shows "b' = b
       \<and> socios b' = socios b
       \<and> prestamosActivos b' = prestamosActivos b
       \<and> (\<exists>s l p. buscarSocio b sid = Some s \<and> buscarLibro b i = Some l
             \<and> tienePrestadoLibro s l = Some p
             \<and> permiteRenovacion z (politicaActual b) s p hoy
             \<and> buscarSocio b' sid = Some s
             \<and> out = [PrestamoRenovadoHasta
                  (TimeClip (UTC z (LocalTime z hoy
                     + calcularDuracion z (politicaActual b) s (getDuracionPrestamo s) hoy
                       * msPerDay)))])"
  using assms
  by (auto simp: renovarPrestamo_def setDate_getDate Let_def split: option.splits if_splits)

text \<open>C3, at a concrete input.\<close>

theorem renovar_sin_efecto_witness:
  "renovarPrestamo zonaUTC 1 ''isbn-1'' msPerDay con_prestamo =
     (Inr (), con_prestamo, [PrestamoRenovadoHasta (Some (15 * msPerDay))])
   \<and> map fechaVencimiento (prestamosActivos con_prestamo) = [Some (14 * msPerDay)]"
proof -
  have r: "renovarPrestamo zonaUTC 1 ''isbn-1'' msPerDay con_prestamo =
     (Inr (), con_prestamo, [PrestamoRenovadoHasta (Some (15 * msPerDay))])"
    by (simp add: renovarPrestamo_def con_prestamo_eq prestamo_hobbit_def buscarSocio_def
        buscarLibro_def tienePrestadoLibro_def permiteRenovacion_def diasVencido_def
        estaVencido_def calcularDuracion_def tieneLibrosVencidos_def getDuracionPrestamo_def
        setDate_getDate msPerDay_def LocalTime_def UTC_def TimeClip_def zonaUTC_def Let_def)
  from renovar_sin_efecto [OF r] r show ?thesis
    by (simp add: con_prestamo_eq prestamo_hobbit_def msPerDay_def)
qed




text \<open>
  C5.  Round trip.  In a state the library can reach, after a successful \<open>crearPrestamo\<close>
  of a regular loan followed by \<open>devolverLibro\<close> for the same member and ISBN, the return
  succeeds, the loan created is neither among the active loans nor among the loans of
  any member, both collections are what they were before the loan, and no later
  \<open>crearPrestamo\<close> for that ISBN fails with \<open>Unavailable\<close>.
\<close>

theorem ida_y_vuelta:
  assumes alc: "alcanzable b"
    and cr: "crearPrestamo z sid i REGULAR hoy b = (Inr (), b1)"
    and dv: "devolverLibro sid i hoy' b1 = (r, b2, out)"
  shows "r = Inr ()
       \<and> (\<exists>p. prestamosActivos b1 = prestamosActivos b @ [p]
              \<and> p \<notin> set (prestamosActivos b2)
              \<and> (\<forall>s \<in> set (socios b2). p \<notin> set (prestamos s)))
       \<and> prestamosActivos b2 = prestamosActivos b
       \<and> socios b2 = socios b
       \<and> (\<forall>z' sid' k' hoy''.
             fst (crearPrestamo z' sid' i k' hoy'' b2) \<noteq> Inl Unavailable)"
proof -
  have inv: "invariante b" by (rule alcanzable_invariante [OF alc])
  define p where "p = (\<lambda>l0. PrestamoFactory_crearPrestamo z REGULAR (siguienteRef b) l0 sid hoy)"
  from crear_casos [OF cr] obtain s l where s: "buscarSocio b sid = Some s"
    and l: "buscarLibro b i = Some l" and libre: "\<not> estaLibroPrestado b l"
    and b1: "b1 = agregarALasListas (p l) sid b"
    by (auto simp: p_def)
  have rp: "ref_prestamo (p l) = siguienteRef b" by (simp add: p_def ref_factory)
  have lp: "libro (p l) = l" by (simp add: p_def libro_factory)
  from s have f: "find (\<lambda>s. id_socio s = sid) (socios b) = Some s"
    by (simp add: buscarSocio_def)
  then have mem: "s \<in> set (socios b)" and ids: "id_socio s = sid"
    using find_mem by fastforce+
  have s1: "buscarSocio b1 sid = Some (agregarPrestamo (p l) s)"
    using find_enSocio [OF f, of "agregarPrestamo (p l)"] ids
    by (simp add: b1 buscarSocio_def agregarALasListas_def agregarPrestamo_def)
  have l1: "buscarLibro b1 i = Some l"
    using l by (simp add: b1 buscarLibro_def agregarALasListas_def)
  have "\<forall>q \<in> set (prestamosActivos b). ref_libro (libro q) \<noteq> ref_libro l"
    using libre by (auto simp: estaLibroPrestado_def list_ex_iff)
  then have "\<forall>q \<in> set (prestamos s). \<not> ref_libro (libro q) = ref_libro l"
    using socio_activos [OF inv mem] by blast
  then have t1: "tienePrestadoLibro (agregarPrestamo (p l) s) l = Some (p l)"
    using lp by (simp add: tienePrestadoLibro_def agregarPrestamo_def find_append_last)
  have "devolverLibro sid i hoy' b1 =
          (Inr (), quitarDeLasListas (p l) sid b1,
           if calcularMulta (p l) hoy' > 0 then [MultaGenerada (calcularMulta (p l) hoy')] else [])"
    by (rule devolver_exito [OF s1 l1 t1])
  with dv have r: "r = Inr ()" and "b2 = quitarDeLasListas (p l) sid b1" by simp_all
  then have b2: "b2 = b\<lparr>siguienteRef := Suc (siguienteRef b)\<rparr>"
    using quitar_agregar [OF inv s rp] by (simp add: b1)
  have nA: "p l \<notin> set (prestamosActivos b)"
    using inv rp by (auto simp: invariante_def)
  have nS: "\<forall>s' \<in> set (socios b). p l \<notin> set (prestamos s')"
    using nA socio_activos [OF inv] by blast
  have again: "fst (crearPrestamo z' sid' i k' hoy'' b2) \<noteq> Inl Unavailable"
    for z' sid' k' hoy''
    using l libre
    by (auto simp: b2 crearPrestamo_def buscarLibro_def buscarSocio_def estaLibroPrestado_def
        instanceof_import_PrestamoReferencia_def Let_def split: option.splits)
  have "prestamosActivos b1 = prestamosActivos b @ [p l]"
    by (simp add: b1 agregarALasListas_def)
  with r nA nS again show ?thesis by (auto simp: b2)
qed

text \<open>C5, at a concrete input.\<close>

theorem ida_y_vuelta_witness:
  "alcanzable socio_y_libros
   \<and> crearPrestamo zonaUTC 1 ''isbn-1'' REGULAR 0 socio_y_libros = (Inr (), con_prestamo)
   \<and> fst (devolverLibro 1 ''isbn-1'' msPerDay con_prestamo) = Inr ()
   \<and> prestamosActivos (fst (snd (devolverLibro 1 ''isbn-1'' msPerDay con_prestamo))) = []
   \<and> socios (fst (snd (devolverLibro 1 ''isbn-1'' msPerDay con_prestamo))) = socios socio_y_libros
   \<and> fst (crearPrestamo zonaUTC 1 ''isbn-1'' CORTO msPerDay
            (fst (snd (devolverLibro 1 ''isbn-1'' msPerDay con_prestamo)))) \<noteq> Inl Unavailable"
proof -
  have c: "crearPrestamo zonaUTC 1 ''isbn-1'' REGULAR 0 socio_y_libros = (Inr (), con_prestamo)"
    by (simp add: crear_ejemplo con_prestamo_eq)
  have d: "devolverLibro 1 ''isbn-1'' msPerDay con_prestamo =
     (fst (devolverLibro 1 ''isbn-1'' msPerDay con_prestamo),
      fst (snd (devolverLibro 1 ''isbn-1'' msPerDay con_prestamo)),
      snd (snd (devolverLibro 1 ''isbn-1'' msPerDay con_prestamo)))"
    by simp
  from ida_y_vuelta [OF alcanzable_socio_y_libros c d] c alcanzable_socio_y_libros
  show ?thesis by (simp add: socio_y_libros_eq)
qed

text \<open>
  C6.  Synchronisation.  In every state reachable from the new library, a loan is in the
  collection of some member exactly when it is an active loan of the library.  From such
  a state \<open>crearPrestamo\<close> either fails and leaves both collections as they are, or
  appends one new loan to the active loans and to the loans of the member found;
  \<open>devolverLibro\<close> either fails and leaves both collections as they are, or removes one
  loan, which was in both, from both.
\<close>

theorem sincronizacion:
  assumes "alcanzable b"
  shows "(\<forall>p. (\<exists>s \<in> set (socios b). p \<in> set (prestamos s)) = (p \<in> set (prestamosActivos b)))
       \<and> (\<forall>z sid i k' hoy r b'. crearPrestamo z sid i k' hoy b = (r, b') \<longrightarrow>
            (case r of
               Inl e \<Rightarrow> socios b' = socios b \<and> prestamosActivos b' = prestamosActivos b
             | Inr u \<Rightarrow>
                 (\<exists>p s. buscarSocio b sid = Some s
                    \<and> p \<notin> set (prestamosActivos b)
                    \<and> prestamosActivos b' = prestamosActivos b @ [p]
                    \<and> socios b' = enSocio sid (agregarPrestamo p) (socios b)
                    \<and> buscarSocio b' sid = Some (agregarPrestamo p s))))
       \<and> (\<forall>sid i hoy r b' out. devolverLibro sid i hoy b = (r, b', out) \<longrightarrow>
            (case r of
               Inl e \<Rightarrow> socios b' = socios b \<and> prestamosActivos b' = prestamosActivos b
             | Inr u \<Rightarrow>
                 (\<exists>p s. buscarSocio b sid = Some s
                    \<and> p \<in> set (prestamos s) \<and> p \<in> set (prestamosActivos b)
                    \<and> add_mset p (mset (prestamosActivos b')) = mset (prestamosActivos b)
                    \<and> add_mset p (mset (prestamosDeSocios b')) = mset (prestamosDeSocios b)
                    \<and> p \<notin> set (prestamosActivos b')
                    \<and> p \<notin> set (prestamosDeSocios b'))))"
proof -
  have inv: "invariante b" by (rule alcanzable_invariante [OF assms])
  then have "set (prestamosDeSocios b) = set (prestamosActivos b)"
    by (auto simp: invariante_def dest: mset_eq_setD)
  then have "\<forall>p. (\<exists>s \<in> set (socios b). p \<in> set (prestamos s)) = (p \<in> set (prestamosActivos b))"
    by (auto simp: prestamosDeSocios_def)
  with crear_atomico [OF inv] devolver_atomico [OF inv] show ?thesis by blast
qed

text \<open>C6, at a concrete input.\<close>

theorem sincronizacion_witness:
  "alcanzable con_prestamo
   \<and> (\<exists>s \<in> set (socios con_prestamo). prestamo_hobbit \<in> set (prestamos s))
   \<and> prestamo_hobbit \<in> set (prestamosActivos con_prestamo)
   \<and> crearPrestamo zonaUTC 1 ''isbn-1'' CORTO msPerDay con_prestamo = (Inl Unavailable, con_prestamo)
   \<and> fst (devolverLibro 1 ''isbn-1'' msPerDay con_prestamo) = Inr ()
   \<and> prestamosActivos (fst (snd (devolverLibro 1 ''isbn-1'' msPerDay con_prestamo))) = []
   \<and> prestamosDeSocios (fst (snd (devolverLibro 1 ''isbn-1'' msPerDay con_prestamo))) = []"
proof -
  have a: "prestamo_hobbit \<in> set (prestamosActivos con_prestamo)"
    by (simp add: con_prestamo_eq)
  have c: "crearPrestamo zonaUTC 1 ''isbn-1'' CORTO msPerDay con_prestamo = (Inl Unavailable, con_prestamo)"
    by (simp add: con_prestamo_eq prestamo_hobbit_def crearPrestamo_def buscarSocio_def
        buscarLibro_def estaLibroPrestado_def)
  have d: "devolverLibro 1 ''isbn-1'' msPerDay con_prestamo =
     (Inr (),
      con_prestamo\<lparr>socios := [\<lparr>id_socio = 1, nombre = ''Ana'', apellido = ''Paz'',
          claseSocio = SocioRegular, prestamos = []\<rparr>], prestamosActivos := []\<rparr>, [])"
    by (simp add: con_prestamo_eq prestamo_hobbit_def devolverLibro_def buscarSocio_def
        buscarLibro_def tienePrestadoLibro_def calcularMulta_def diasVencido_def
        estaVencido_def removerPrestamo_def quitarPrestamo_def splice1_def msPerDay_def
        Let_def)
  from sincronizacion [OF alcanzable_con_prestamo] a
  have "\<exists>s \<in> set (socios con_prestamo). prestamo_hobbit \<in> set (prestamos s)"
    by blast
  with a c d alcanzable_con_prestamo show ?thesis
    by (simp add: prestamosDeSocios_def)
qed

text \<open>
  C7, as claimed: for every loan and every clock reading, \<open>diasVencido\<close> is the ceiling of
  the time elapsed since the due date, in days.  The loan of the example is due at
  \<open>- 4752000000000000\<close>; at the clock reading \<open>4752000000000001\<close>, both valid dates, the
  elapsed \<open>9504000000000001\<close> milliseconds are rounded to the double \<open>9504000000000000\<close>,
  a whole number of days, and \<open>diasVencido\<close> is 110000000 where the ceiling is 110000001.
\<close>

theorem diasVencido_techo_counterexample:
  "fechaVencimiento prestamo_lejano = Some (- 4752000000000000)
   \<and> diasVencido prestamo_lejano hoy_lejano = 110000000
   \<and> \<lceil>real_of_int (hoy_lejano - (- 4752000000000000)) / real_of_int msPerDay\<rceil> = 110000001"
proof -
  have v: "fechaVencimiento prestamo_lejano = Some (- 4752000000000000)"
    by (simp add: prestamo_lejano_def nuevoPrestamo_def vencimiento_regular TimeClip_def
        UTC_def LocalTime_def zonaUTC_def msPerDay_def)
  have e: "exponente 9504000000000001 = 53"
    by (rule exponente_unique) simp_all
  have "\<lfloor>(9504000000000001::rat) / 2\<rfloor> = 4752000000000000"
    by (rule floor_unique) simp_all
  then have "redondeoPar (9504000000000001 / 2) = 4752000000000000"
    by (simp add: redondeoPar_def Let_def)
  then have r1: "redondear 9504000000000001 = 9504000000000000"
    using redondear_pos [of 9504000000000001] by (simp add: e)
  have "redondear (of_int 110000000) = of_int 110000000"
    by (rule redondear_of_int) simp_all
  then have r2: "redondear 110000000 = 110000000" by simp
  have d: "diasVencido prestamo_lejano hoy_lejano = 110000000"
    by (simp add: diasVencido_def estaVencido_def v hoy_lejano_def getTime_def r1 r2
        Math_ceil_def)
  have "\<lceil>real_of_int (hoy_lejano - (- 4752000000000000)) / real_of_int msPerDay\<rceil> = 110000001"
    by (simp add: hoy_lejano_def msPerDay_def ceiling_eq_iff)
  with v d show ?thesis by simp
qed

text \<open>
  C7, amended.  For a loan with a valid due date and a clock reading less than \<open>2 ^ 53\<close>
  milliseconds (over 285 thousand years) after it, \<open>diasVencido\<close> is 0 when the clock is
  not after the due date, and otherwise the ceiling of the time elapsed since the due
  date, in days: 25 hours after the due date it is 2, one hour after it is 1.
\<close>

theorem diasVencido_techo:
  assumes "fechaVencimiento p = Some v" and "hoy - v < 2 ^ 53"
  shows "diasVencido p hoy =
           (if hoy \<le> v then 0
            else \<lceil>real_of_int (hoy - v) / real_of_int msPerDay\<rceil>)
       \<and> diasVencido (p\<lparr>fechaVencimiento := Some D\<rparr>) (D + 25 * (60 * 60 * 1000)) = 2
       \<and> diasVencido (p\<lparr>fechaVencimiento := Some D\<rparr>) (D + 60 * 60 * 1000) = 1"
proof (intro conjI)
  have "diasVencido p hoy = (if hoy \<le> v then 0 else - ((- (hoy - v)) div msPerDay))"
    by (rule diasVencido_exacto [OF assms])
  then show "diasVencido p hoy =
           (if hoy \<le> v then 0
            else \<lceil>real_of_int (hoy - v) / real_of_int msPerDay\<rceil>)"
    by (simp only: techo_div)
  show "diasVencido (p\<lparr>fechaVencimiento := Some D\<rparr>) (D + 25 * (60 * 60 * 1000)) = 2"
    using diasVencido_exacto [of "p\<lparr>fechaVencimiento := Some D\<rparr>" D "D + 25 * (60 * 60 * 1000)"]
    by (simp add: msPerDay_def)
  show "diasVencido (p\<lparr>fechaVencimiento := Some D\<rparr>) (D + 60 * 60 * 1000) = 1"
    using diasVencido_exacto [of "p\<lparr>fechaVencimiento := Some D\<rparr>" D "D + 60 * 60 * 1000"]
    by (simp add: msPerDay_def)
qed

text \<open>C7, at a concrete input.\<close>

theorem diasVencido_techo_witness:
  "fechaVencimiento prestamo_hobbit = Some (14 * msPerDay)
   \<and> diasVencido prestamo_hobbit (14 * msPerDay) = 0
   \<and> diasVencido prestamo_hobbit (14 * msPerDay + 1) = 1
   \<and> diasVencido prestamo_hobbit (14 * msPerDay + 25 * (60 * 60 * 1000)) = 2"
proof -
  have v: "fechaVencimiento prestamo_hobbit = Some (14 * msPerDay)"
    by (simp add: prestamo_hobbit_def msPerDay_def)
  have b0: "14 * msPerDay - 14 * msPerDay < (2::int) ^ 53" by simp
  have b1: "14 * msPerDay + 1 - 14 * msPerDay < (2::int) ^ 53" by simp
  have b2: "14 * msPerDay + 25 * (60 * 60 * 1000) - 14 * msPerDay < (2::int) ^ 53" by simp
  have "\<lceil>real_of_int (1::int) / real_of_int msPerDay\<rceil> = 1"
    by (simp add: msPerDay_def ceiling_eq_iff)
  moreover have "\<lceil>real_of_int (25 * (60 * 60 * 1000)) / real_of_int msPerDay\<rceil> = 2"
    by (simp add: msPerDay_def ceiling_eq_iff)
  ultimately show ?thesis
    using diasVencido_techo [OF v b0, of 0] diasVencido_techo [OF v b1, of 0]
      diasVencido_techo [OF v b2, of 0] v
    by simp
qed

text \<open>
  C8.  \<open>getMultaTotal\<close> of a VIP member is 0 whatever loans the member holds, also when
  \<open>calcularMulta\<close> of those loans is not.
\<close>

theorem multa_VIP: "claseSocio s = SocioVIP \<Longrightarrow> getMultaTotal s hoy = 0"
  by (simp add: getMultaTotal_def)

text \<open>C8, at a concrete input.\<close>

theorem multa_VIP_witness:
  "claseSocio vip_moroso = SocioVIP
   \<and> map (\<lambda>p. calcularMulta p (16 * msPerDay)) (prestamos vip_moroso) = [100]
   \<and> getMultaTotal vip_moroso (16 * msPerDay) = 0"
proof -
  have h: "claseSocio vip_moroso = SocioVIP"
    by (simp add: vip_moroso_def agregarPrestamo_def SocioFactory_crearSocio_def nuevoSocio_def)
  define p where "p = PrestamoFactory_crearPrestamo zonaUTC REGULAR 1 libro_ejemplo 2 0"
  have v: "fechaVencimiento p = Some (14 * msPerDay)"
    by (simp add: p_def PrestamoFactory_crearPrestamo_def nuevoPrestamo_def vencimiento_regular
        TimeClip_def UTC_def LocalTime_def zonaUTC_def msPerDay_def)
  have c: "clase p = PrestamoRegular"
    by (simp add: p_def PrestamoFactory_crearPrestamo_def nuevoPrestamo_def)
  have "diasVencido p (16 * msPerDay) = 2"
    using diasVencido_exacto [OF v, of "16 * msPerDay"] by (simp add: msPerDay_def)
  then have "calcularMulta p (16 * msPerDay) = 100"
    by (simp add: calcularMulta_def c MULTA_POR_DIA_def)
  moreover have "prestamos vip_moroso = [p]"
    by (simp add: vip_moroso_def p_def agregarPrestamo_def SocioFactory_crearSocio_def
        nuevoSocio_def)
  ultimately show ?thesis
    using h multa_VIP [OF h, of "16 * msPerDay"] by simp
qed

text \<open>
  C9.  \<open>buscarEnTodos\<close> returns, in the order of registration, the results of every
  collaborator whose \<open>buscarPor\<close> returns, each with its type label and the name of its
  system, and nothing else; a collaborator that throws contributes no result and a
  warning, and the collaborators after it are still searched.
\<close>

theorem buscarEnTodos_resiste:
  "fst (buscarEnTodos m c) = searchAll_spec m c
   \<and> snd (buscarEnTodos m c) = concat (map (avisosDe c) m)
   \<and> (\<forall>n s rs r. (n, s) \<in> set m \<and> s c = Inr rs \<and> r \<in> set rs \<longrightarrow>
         \<lparr>tipo = obtenerTipoResultado r, resultado = r, fuente = n\<rparr>
           \<in> set (fst (buscarEnTodos m c)))
   \<and> (\<forall>x \<in> set (fst (buscarEnTodos m c)).
         \<exists>n s rs. (n, s) \<in> set m \<and> s c = Inr rs \<and> resultado x \<in> set rs
           \<and> fuente x = n \<and> tipo x = obtenerTipoResultado (resultado x))"
proof -
  have r: "fst (buscarEnTodos m c) = searchAll_spec m c"
    by (simp add: buscarEnTodos_def searchAll_spec_def buscar_fold)
  have a: "snd (buscarEnTodos m c) = concat (map (avisosDe c) m)"
    by (simp add: buscarEnTodos_def buscar_fold)
  have i: "\<lparr>tipo = obtenerTipoResultado r, resultado = r, fuente = n\<rparr>
             \<in> set (searchAll_spec m c)"
    if "(n, s) \<in> set m" and "s c = Inr rs" and "r \<in> set rs" for n s rs r
  proof -
    have "etiquetar n r \<in> set (resultadosDe c (n, s))"
      using that by (simp add: resultadosDe_def)
    then show ?thesis
      using that(1) by (auto simp: searchAll_spec_def etiquetar_def)
  qed
  have o: "\<exists>n s rs. (n, s) \<in> set m \<and> s c = Inr rs \<and> resultado x \<in> set rs
           \<and> fuente x = n \<and> tipo x = obtenerTipoResultado (resultado x)"
    if "x \<in> set (searchAll_spec m c)" for x
  proof -
    from that obtain n s where ns: "(n, s) \<in> set m" and x: "x \<in> set (resultadosDe c (n, s))"
      by (auto simp: searchAll_spec_def)
    show ?thesis
    proof (cases "s c")
      case (Inl e)
      with x show ?thesis by (simp add: resultadosDe_def)
    next
      case (Inr rs)
      with x have "resultado x \<in> set rs \<and> fuente x = n
          \<and> tipo x = obtenerTipoResultado (resultado x)"
        by (auto simp: resultadosDe_def etiquetar_def)
      with ns Inr show ?thesis by blast
    qed
  qed
  from r a i o show ?thesis by (simp only: r) blast
qed

text \<open>C9, at a concrete input.\<close>

theorem buscarEnTodos_resiste_witness:
  "map fst sistemas_ejemplo = [''Catalogo'', ''Archivo'', ''Biblioteca Digital'']
   \<and> buscarEnTodos sistemas_ejemplo ''Tolkien'' =
       ([\<lparr>tipo = EtLibro, resultado = ItemLibro libro_ejemplo, fuente = ''Catalogo''\<rparr>,
         \<lparr>tipo = EtRecursoDigital,
          resultado = ItemRecursoDigital ''Tolkien en audio'' ''http://x/t'' audio 0,
          fuente = ''Biblioteca Digital''\<rparr>],
        [(''Archivo'', Excepcion ''sin conexion'')])"
proof -
  have m: "sistemas_ejemplo =
     [(''Catalogo'', catalogo_ejemplo), (''Archivo'', sistema_roto),
      (''Biblioteca Digital'', digital_ejemplo)]"
    by (simp add: sistemas_ejemplo_def)
  have "fst (buscarEnTodos sistemas_ejemplo ''Tolkien'') =
          searchAll_spec sistemas_ejemplo ''Tolkien''"
    and "snd (buscarEnTodos sistemas_ejemplo ''Tolkien'') =
          concat (map (avisosDe ''Tolkien'') sistemas_ejemplo)"
    using buscarEnTodos_resiste [of sistemas_ejemplo "''Tolkien''"] by simp_all
  then have "buscarEnTodos sistemas_ejemplo ''Tolkien'' =
     (searchAll_spec sistemas_ejemplo ''Tolkien'',
      concat (map (avisosDe ''Tolkien'') sistemas_ejemplo))"
    by (simp add: prod_eq_iff)
  then show ?thesis
    by (simp add: m searchAll_spec_def resultadosDe_def avisosDe_def catalogo_ejemplo_def
        sistema_roto_def digital_ejemplo_def etiquetar_def obtenerTipoResultado_def)
qed

text \<open>
  C10.  The month \<open>getMonth\<close> reads lies between 0 and 11, in any time zone, so the entry
  12 of \<open>MESES_EXAMENES\<close> never matches: the student policy doubles the duration and
  renews unconditionally exactly in the months 5, 6 and 11 (June, July, December), and
  not in January (month 0).
\<close>

theorem estudiante_meses:
  "0 \<le> getMonth z hoy \<and> getMonth z hoy \<le> 11
   \<and> 12 \<in> set MESES_EXAMENES
   \<and> (getMonth z hoy \<in> set MESES_EXAMENES \<longleftrightarrow> getMonth z hoy \<in> {5, 6, 11})
   \<and> (getMonth z hoy = 0 \<longrightarrow> getMonth z hoy \<notin> set MESES_EXAMENES)
   \<and> calcularDuracion z PoliticaEstudiante s base hoy =
       (if getMonth z hoy \<in> {5, 6, 11} then base * 2 else base)
   \<and> permiteRenovacion z PoliticaEstudiante s p hoy =
       (if getMonth z hoy \<in> {5, 6, 11} then True else \<not> estaVencido p hoy)"
  using getMonth_range [of z hoy]
  by (auto simp add: MESES_EXAMENES_def calcularDuracion_def permiteRenovacion_def Let_def)

text \<open>C10, at a concrete input.\<close>

theorem estudiante_meses_witness:
  "getMonth zonaUTC 0 = 0
   \<and> calcularDuracion zonaUTC PoliticaEstudiante vip_moroso 14 0 = 14
   \<and> getMonth zonaUTC 1750000000000 = 5
   \<and> calcularDuracion zonaUTC PoliticaEstudiante vip_moroso 14 1750000000000 = 28
   \<and> getMonth zonaConCambio 1740790800000 = 1
   \<and> calcularDuracion zonaConCambio PoliticaEstudiante vip_moroso 14 1740790800000 = 14"
  using estudiante_meses [of zonaUTC 0 vip_moroso 14 prestamo_hobbit]
    estudiante_meses [of zonaUTC 1750000000000 vip_moroso 14 prestamo_hobbit]
    estudiante_meses [of zonaConCambio 1740790800000 vip_moroso 14 prestamo_hobbit]
  by (simp add: mes_enero mes_junio mes_febrero_local)

end
